theory Spec2Isabelle
  imports Main "HOL-Library.Word"
begin

section \<open>pyalint: a wrapper around yamllint and actionlint\<close>

text \<open>
  A shallow embedding of \<^verbatim>\<open>pyalint.py\<close>. The script has no engine of its own: it loads a
  configuration, finds the workflow files, runs two linters on each file and turns what
  they print into an exit code. Everything it asks of its surroundings (the file system,
  the two linters, the YAML and JSON libraries) is a field of the record \<open>env\<close>; what it
  does to its surroundings (lines printed, subprocesses started) is kept in the record
  \<open>world\<close>, passed through every function.
\<close>

subsection \<open>Strings\<close>

text \<open>
  A Python \<^verbatim>\<open>str\<close> is modelled by its UTF-8 encoding, a list of 8-bit characters: the
  linters' output reaches the script decoded from UTF-8 (\<^verbatim>\<open>encoding='utf-8'\<close>), and an ASCII
  character is one byte that never occurs inside the encoding of another character.
\<close>

definition lower_char :: "char \<Rightarrow> char" where
  "lower_char c =
     (let n = (of_char c :: nat) in if 65 \<le> n \<and> n \<le> 90 then char_of (n + 32) else c)"

text \<open>
  \<^verbatim>\<open>str.lower()\<close> on the letters A to Z. The script uses the result only to search it for
  \<^verbatim>\<open>"error"\<close>; the cased letters outside ASCII, left as they are here, have no lower-case
  form that holds an e, r or o.
\<close>

definition lower :: "string \<Rightarrow> string" where
  "lower s = map lower_char s"

text \<open>\<^verbatim>\<open>pat in s\<close> on strings: \<open>pat\<close> occurs in \<open>s\<close> as a contiguous substring.\<close>

fun str_in :: "string \<Rightarrow> string \<Rightarrow> bool" where
  "str_in pat [] = (pat = [])"
| "str_in pat (c # cs) = (take (length pat) (c # cs) = pat \<or> str_in pat cs)"

text \<open>
  The white space of \<^verbatim>\<open>str.strip()\<close>: the characters for which \<^verbatim>\<open>str.isspace()\<close> holds, each
  in its UTF-8 encoding (U+0009 to U+000D, U+001C to U+0020, U+0085, U+00A0, U+1680,
  U+2000 to U+200A, U+2028, U+2029, U+202F, U+205F, U+3000).
\<close>

definition whitespace :: "string list" where
  "whitespace =
     [[CHR 0x09], [CHR 0x0A], [CHR 0x0B], [CHR 0x0C], [CHR 0x0D],
      [CHR 0x1C], [CHR 0x1D], [CHR 0x1E], [CHR 0x1F], [CHR 0x20],
      [CHR 0xC2, CHR 0x85], [CHR 0xC2, CHR 0xA0], [CHR 0xE1, CHR 0x9A, CHR 0x80],
      [CHR 0xE2, CHR 0x80, CHR 0x80], [CHR 0xE2, CHR 0x80, CHR 0x81], [CHR 0xE2, CHR 0x80, CHR 0x82],
      [CHR 0xE2, CHR 0x80, CHR 0x83], [CHR 0xE2, CHR 0x80, CHR 0x84], [CHR 0xE2, CHR 0x80, CHR 0x85],
      [CHR 0xE2, CHR 0x80, CHR 0x86], [CHR 0xE2, CHR 0x80, CHR 0x87], [CHR 0xE2, CHR 0x80, CHR 0x88],
      [CHR 0xE2, CHR 0x80, CHR 0x89], [CHR 0xE2, CHR 0x80, CHR 0x8A], [CHR 0xE2, CHR 0x80, CHR 0xA8],
      [CHR 0xE2, CHR 0x80, CHR 0xA9], [CHR 0xE2, CHR 0x80, CHR 0xAF], [CHR 0xE2, CHR 0x81, CHR 0x9F],
      [CHR 0xE3, CHR 0x80, CHR 0x80]]"

text \<open>The white-space character a string starts with, if it starts with one.\<close>

definition space_prefix :: "string list \<Rightarrow> string \<Rightarrow> string option" where
  "space_prefix ws s = find (\<lambda>t. take (length t) s = t) ws"

text \<open>
  \<^verbatim>\<open>lstrip\<close> removes leading white-space characters one at a time; the fuel is the length
  of the string, and every white-space character is at least one byte long.
\<close>

fun lstrip_fuel :: "nat \<Rightarrow> string list \<Rightarrow> string \<Rightarrow> string" where
  "lstrip_fuel 0 ws s = s"
| "lstrip_fuel (Suc n) ws s =
     (case space_prefix ws s of
        None \<Rightarrow> s
      | Some t \<Rightarrow> lstrip_fuel n ws (drop (length t) s))"

definition lstrip :: "string \<Rightarrow> string" where
  "lstrip s = lstrip_fuel (length s) whitespace s"

definition rstrip :: "string \<Rightarrow> string" where
  "rstrip s = rev (lstrip_fuel (length s) (map rev whitespace) (rev s))"

definition strip :: "string \<Rightarrow> string" where
  "strip s = rstrip (lstrip s)"

text \<open>Decimal digits of a number, as \<^verbatim>\<open>str(n)\<close> and an f-string print them.\<close>

fun show_nat :: "nat \<Rightarrow> string" where
  "show_nat n =
     (if n < 10 then [char_of (48 + n)]
      else show_nat (n div 10) @ [char_of (48 + n mod 10)])"

definition show_int :: "int \<Rightarrow> string" where
  "show_int i = (if i < 0 then ''-'' @ show_nat (nat (- i)) else show_nat (nat i))"

text \<open>The symbols the script prints, in UTF-8.\<close>

definition warning_sign :: string where
  "warning_sign = [CHR 0xE2, CHR 0x9A, CHR 0xA0, CHR 0xEF, CHR 0xB8, CHR 0x8F]"

definition cross_mark :: string where
  "cross_mark = [CHR 0xE2, CHR 0x9D, CHR 0x8C]"

definition wrench :: string where
  "wrench = [CHR 0xF0, CHR 0x9F, CHR 0x94, CHR 0xA7]"

definition page :: string where
  "page = [CHR 0xF0, CHR 0x9F, CHR 0x93, CHR 0x84]"

definition check_mark :: string where
  "check_mark = [CHR 0xE2, CHR 0x9C, CHR 0x85]"

definition bullet :: string where
  "bullet = [CHR 0xE2, CHR 0x80, CHR 0xA2]"

definition newline :: string where
  "newline = [CHR 0x0A]"

subsection \<open>Python values\<close>

text \<open>
  What \<^verbatim>\<open>yaml.safe_load\<close> and \<^verbatim>\<open>json.loads\<close> return. A float is kept as its 64 IEEE bits; a
  dict is the list of its items in insertion order, its keys compared as values. \<open>PDate\<close>
  is a \<^verbatim>\<open>datetime.date\<close>, which \<^verbatim>\<open>yaml.safe_load\<close> builds from a plain scalar such as
  \<^verbatim>\<open>2001-12-14\<close>, kept as that text. YAML's other timestamps, binary values and sets, and
  cyclic documents, are outside the model.
\<close>

datatype pyval =
    PNone
  | PBool bool
  | PInt int
  | PFloat "64 word"
  | PStr string
  | PList "pyval list"
  | PDict "(pyval \<times> pyval) list"
  | PDate string

type_synonym pydict = "(pyval \<times> pyval) list"

text \<open>
  The exceptions the script meets. \<open>JSONDecodeError\<close> is the one \<^verbatim>\<open>main\<close> catches by name;
  \<open>OtherError\<close> stands for every other subclass of \<^verbatim>\<open>Exception\<close> a library call raises.
\<close>

datatype exn =
    AttributeError string
  | TypeError string
  | JSONDecodeError string
  | OtherError string

fun str_exn :: "exn \<Rightarrow> string" where
  "str_exn (AttributeError m) = m"
| "str_exn (TypeError m) = m"
| "str_exn (JSONDecodeError m) = m"
| "str_exn (OtherError m) = m"

fun type_name :: "pyval \<Rightarrow> string" where
  "type_name PNone = ''NoneType''"
| "type_name (PBool _) = ''bool''"
| "type_name (PInt _) = ''int''"
| "type_name (PFloat _) = ''float''"
| "type_name (PStr _) = ''str''"
| "type_name (PList _) = ''list''"
| "type_name (PDict _) = ''dict''"
| "type_name (PDate _) = ''datetime.date''"

text \<open>
  Truth value of an object, as \<^verbatim>\<open>if parsed:\<close> tests it: \<^verbatim>\<open>None\<close>, \<^verbatim>\<open>False\<close>, zero and every
  empty container are false; a date is true. A float is zero when all its bits but the
  sign are.
\<close>

fun truthy :: "pyval \<Rightarrow> bool" where
  "truthy PNone = False"
| "truthy (PBool b) = b"
| "truthy (PInt i) = (i \<noteq> 0)"
| "truthy (PFloat w) = (push_bit 1 w \<noteq> 0)"
| "truthy (PStr s) = (s \<noteq> [])"
| "truthy (PList xs) = (xs \<noteq> [])"
| "truthy (PDict d) = (d \<noteq> [])"
| "truthy (PDate _) = True"

text \<open>\<^verbatim>\<open>d[k] = v\<close>: a key already there keeps its place and takes the new value.\<close>

fun dict_set :: "pydict \<Rightarrow> pyval \<Rightarrow> pyval \<Rightarrow> pydict" where
  "dict_set [] k v = [(k, v)]"
| "dict_set ((k', v') # d) k v =
     (if k' = k then (k', v) # d else (k', v') # dict_set d k v)"

text \<open>\<^verbatim>\<open>{**d, **u}\<close>: the items of \<open>u\<close> are stored into a copy of \<open>d\<close>, in order.\<close>

definition dict_update :: "pydict \<Rightarrow> pydict \<Rightarrow> pydict" where
  "dict_update d u = foldl (\<lambda>acc (k, v). dict_set acc k v) d u"

definition dict_get :: "pydict \<Rightarrow> pyval \<Rightarrow> pyval option" where
  "dict_get d k = map_of d k"

text \<open>\<^verbatim>\<open>x.get(key, default)\<close>: only a dict has the method.\<close>

definition py_get :: "pyval \<Rightarrow> string \<Rightarrow> pyval \<Rightarrow> exn + pyval" where
  "py_get x key dflt =
     (case x of
        PDict d \<Rightarrow> Inr (case dict_get d (PStr key) of Some v \<Rightarrow> v | None \<Rightarrow> dflt)
      | _ \<Rightarrow> Inl (AttributeError
                 ([CHR 0x27] @ type_name x @ [CHR 0x27] @ '' object has no attribute ''
                  @ [CHR 0x27] @ ''get'' @ [CHR 0x27])))"

text \<open>\<^verbatim>\<open>x.items()\<close>: again only on a dict.\<close>

definition py_items :: "pyval \<Rightarrow> exn + pydict" where
  "py_items x =
     (case x of
        PDict d \<Rightarrow> Inr d
      | _ \<Rightarrow> Inl (AttributeError
                 ([CHR 0x27] @ type_name x @ [CHR 0x27] @ '' object has no attribute ''
                  @ [CHR 0x27] @ ''items'' @ [CHR 0x27])))"

text \<open>
  The characters of a string, for iteration: a byte that is not a UTF-8 continuation byte
  (\<open>10xxxxxx\<close>) starts a character.
\<close>

definition is_cont :: "char \<Rightarrow> bool" where
  "is_cont c = (let n = (of_char c :: nat) in 128 \<le> n \<and> n < 192)"

function utf8_chars :: "string \<Rightarrow> string list" where
  "utf8_chars [] = []"
| "utf8_chars (c # cs) = (c # takeWhile is_cont cs) # utf8_chars (dropWhile is_cont cs)"
  by pat_completeness auto
termination
  by (relation "measure length") (auto simp: length_dropWhile_le less_Suc_eq_le)

text \<open>
  What \<^verbatim>\<open>list.extend(x)\<close> appends: the elements of a list, the keys of a dict, the
  characters of a string; anything else is not iterable.
\<close>

definition py_iter :: "pyval \<Rightarrow> exn + pyval list" where
  "py_iter x =
     (case x of
        PList xs \<Rightarrow> Inr xs
      | PDict d \<Rightarrow> Inr (map fst d)
      | PStr s \<Rightarrow> Inr (map PStr (utf8_chars s))
      | _ \<Rightarrow> Inl (TypeError
                 ([CHR 0x27] @ type_name x @ [CHR 0x27] @ '' object is not iterable'')))"

text \<open>
  \<^verbatim>\<open>sep.join(xs)\<close>: the first element that is not a string raises \<^verbatim>\<open>TypeError\<close>, naming its
  position.
\<close>

fun join_from :: "nat \<Rightarrow> string \<Rightarrow> pyval list \<Rightarrow> exn + string" where
  "join_from i sep [] = Inr []"
| "join_from i sep (PStr s # xs) =
     (case join_from (Suc i) sep xs of
        Inl e \<Rightarrow> Inl e
      | Inr r \<Rightarrow> Inr (if xs = [] then s else s @ sep @ r))"
| "join_from i sep (x # xs) =
     Inl (TypeError (''sequence item '' @ show_nat i @ '': expected str instance, ''
                     @ type_name x @ '' found''))"

definition py_join :: "string \<Rightarrow> pyval list \<Rightarrow> exn + string" where
  "py_join sep xs = join_from 0 sep xs"

text \<open>Joining strings cannot fail.\<close>

definition str_join :: "string \<Rightarrow> string list \<Rightarrow> string" where
  "str_join sep xs = (case py_join sep (map PStr xs) of Inr r \<Rightarrow> r | Inl _ \<Rightarrow> [])"

subsection \<open>The surroundings\<close>

text \<open>
  How a call of \<^verbatim>\<open>subprocess.run(..., check=True, encoding='utf-8')\<close> ends:
  \<^item> \<open>Completed\<close>: the process ran and left an exit code and its two streams, decoded and
    with their line ends as Python normalises them (a code other than 0 is
    \<^verbatim>\<open>CalledProcessError\<close>, which carries them);
  \<^item> \<open>Undecodable\<close>: the process ran and left an exit code and two streams of bytes, but
    the bytes are not UTF-8, and decoding them raised the exception given last;
  \<^item> \<open>Raised\<close>: no process ran (the program cannot be started, an argument is not a
    string).
\<close>

datatype proc_result =
    Completed int string string
  | Undecodable int string string exn
  | Raised exn

type_synonym command = "pyval list"

record world =
  stdout :: "string list"
  calls :: "(command \<times> proc_result) list"
  tracebacks :: "exn list"

text \<open>
  \<open>stdout\<close> holds one entry for each call of \<^verbatim>\<open>print\<close>, \<open>calls\<close> one for each call of
  \<^verbatim>\<open>subprocess.run\<close> with the way it ended, and \<open>tracebacks\<close> one for each exception the
  interpreter reports on standard error, all oldest first.
\<close>

definition print :: "string \<Rightarrow> world \<Rightarrow> world" where
  "print s w = w\<lparr>stdout := stdout w @ [s]\<rparr>"

record env =
  which :: "string \<Rightarrow> bool"
  path_str :: "string \<Rightarrow> string"
  path_exists :: "string \<Rightarrow> exn + bool"
  path_is_file :: "string \<Rightarrow> exn + bool"
  rglob :: "string \<Rightarrow> string \<Rightarrow> exn + string list"
  safe_load :: "string \<Rightarrow> exn + pyval"
  subprocess_run :: "(command \<times> proc_result) list \<Rightarrow> command \<Rightarrow> proc_result"
  json_loads :: "string \<Rightarrow> exn + pyval"
  json_dumps_error :: "pyval \<Rightarrow> exn option"
  json_dumps :: "pyval \<Rightarrow> string"
  py_str :: "pyval \<Rightarrow> string"

text \<open>
  \<^item> \<open>which tool\<close>: \<^verbatim>\<open>shutil.which(tool)\<close> found the tool;
  \<^item> \<open>path_str s\<close>: \<^verbatim>\<open>str(Path(s))\<close>, the path as pathlib writes it; \<open>path_exists\<close>,
    \<open>path_is_file\<close> and \<open>rglob\<close> take paths in that form;
  \<^item> \<open>path_exists p\<close>, \<open>path_is_file p\<close>: the answer of \<^verbatim>\<open>Path.exists()\<close> and \<^verbatim>\<open>Path.is_file()\<close>,
    or the \<^verbatim>\<open>OSError\<close> they raise (a name too long, a directory that may not be searched);
  \<^item> \<open>rglob dir pattern\<close>: the entries under \<open>dir\<close> whose name matches, files and
    directories alike, or the exception the walk raises;
  \<^item> \<open>safe_load path\<close>: opening the file at \<open>path\<close> and \<^verbatim>\<open>yaml.safe_load\<close> of it, \<open>Inl\<close> when
    either raises;
  \<^item> \<open>subprocess_run history cmd\<close>: how running \<open>cmd\<close> ends, which may depend on the calls
    made before;
  \<^item> \<open>json_dumps_error v\<close>: the exception \<^verbatim>\<open>json.dumps(v, indent=2)\<close> raises, if it raises (a
    date in \<open>v\<close>); \<open>json_dumps v\<close>: the text it returns otherwise;
  \<^item> \<open>json_loads\<close> and \<open>py_str\<close> (\<^verbatim>\<open>str()\<close>, as an f-string formats a value): the library
    functions.
  The arguments are taken as \<^verbatim>\<open>argparse\<close> returns them.
\<close>

record args =
  arg_debug :: bool
  arg_verbose :: bool
  arg_json :: bool
  arg_file :: "string option"
  arg_config :: "string option"

subsection \<open>Configuration\<close>

definition DEFAULT_CONFIG :: pydict where
  "DEFAULT_CONFIG =
     [(PStr ''yamllint'', PDict [(PStr ''rules'', PDict [(PStr ''line-length'', PStr ''disable'')])]),
      (PStr ''actionlint'', PDict [(PStr ''flags'', PList [])])]"

text \<open>
  The body of the \<^verbatim>\<open>try\<close> in \<^verbatim>\<open>load_config\<close>: open and parse the file, then
  \<^verbatim>\<open>{**DEFAULT_CONFIG, **doc}\<close>, which raises \<^verbatim>\<open>TypeError\<close> when the document is not a mapping.
\<close>

definition try_load :: "env \<Rightarrow> string \<Rightarrow> exn + pydict" where
  "try_load env config_path =
     (case safe_load env config_path of
        Inl e \<Rightarrow> Inl e
      | Inr (PDict u) \<Rightarrow> Inr (dict_update DEFAULT_CONFIG u)
      | Inr doc \<Rightarrow>
          Inl (TypeError ([CHR 0x27] @ type_name doc @ [CHR 0x27] @ '' object is not a mapping'')))"

text \<open>\<^verbatim>\<open>if config_path:\<close> is false for \<^verbatim>\<open>None\<close> and for the empty string.\<close>

definition load_config :: "env \<Rightarrow> string option \<Rightarrow> world \<Rightarrow> pydict \<times> world" where
  "load_config env config_path w =
     (case config_path of
        None \<Rightarrow> (DEFAULT_CONFIG, w)
      | Some p \<Rightarrow>
          if p = [] then (DEFAULT_CONFIG, w)
          else (case try_load env p of
                  Inr cfg \<Rightarrow> (cfg, w)
                | Inl e \<Rightarrow>
                    (DEFAULT_CONFIG,
                     print ''Using default configuration.''
                       (print (warning_sign @ '' Error loading config file: '' @ str_exn e) w))))"

subsection \<open>Dependencies and file discovery\<close>

text \<open>\<^verbatim>\<open>sys.exit(1)\<close> is the result \<open>Some 1\<close>; \<open>None\<close> lets the script go on.\<close>

definition check_dependencies :: "env \<Rightarrow> world \<Rightarrow> int option \<times> world" where
  "check_dependencies env w =
     (let missing = filter (\<lambda>tool. \<not> which env tool) [''yamllint'', ''actionlint'']
      in if missing \<noteq> []
         then (Some 1,
               print (cross_mark @ '' Missing tools: '' @ str_join '', '' missing
                      @ ''. Please install them before running the script.'') w)
         else (None, w))"

definition find_workflow_files :: "env \<Rightarrow> string \<Rightarrow> exn + string list" where
  "find_workflow_files env directory =
     (case rglob env (path_str env directory) ''*.yml'' of
        Inl e \<Rightarrow> Inl e
      | Inr ymls \<Rightarrow>
          (case rglob env (path_str env directory) ''*.yaml'' of
             Inl e \<Rightarrow> Inl e
           | Inr yamls \<Rightarrow> Inr (ymls @ yamls)))"

subsection \<open>Running the linters\<close>

text \<open>
  \<^verbatim>\<open>run_command\<close>. The whole body is inside \<^verbatim>\<open>try\<close>, and the second handler catches every
  \<^verbatim>\<open>Exception\<close>: the function returns a string on every path. In verbose mode the command
  is joined for printing first, and a command with an element that is not a string fails
  there, before any process is started. Output that is not UTF-8 raises inside
  \<^verbatim>\<open>subprocess.run\<close>, whatever the exit code, and reaches the same handler.
\<close>

definition run_command :: "env \<Rightarrow> command \<Rightarrow> bool \<Rightarrow> world \<Rightarrow> string \<times> world" where
  "run_command env command verbose w =
     (case (if verbose
            then (case py_join '' '' command of
                    Inl e \<Rightarrow> Inl e
                  | Inr s \<Rightarrow> Inr (print (wrench @ '' Running: '' @ s) w))
            else Inr w) of
        Inl e \<Rightarrow>
          (''Error: '' @ str_exn e,
           print (cross_mark @ '' Unexpected error running command: '' @ str_exn e) w)
      | Inr w1 \<Rightarrow>
          (let r = subprocess_run env (calls w1) command;
               w2 = w1\<lparr>calls := calls w1 @ [(command, r)]\<rparr>
           in case r of
                Completed returncode out err \<Rightarrow>
                  if returncode = 0 then (out, w2)
                  else (out @ err,
                        print (warning_sign @ '' Command failed with exit code ''
                               @ show_int returncode) w2)
              | Undecodable returncode raw_out raw_err e \<Rightarrow>
                  (''Error: '' @ str_exn e,
                   print (cross_mark @ '' Unexpected error running command: '' @ str_exn e) w2)
              | Raised e \<Rightarrow>
                  (''Error: '' @ str_exn e,
                   print (cross_mark @ '' Unexpected error running command: '' @ str_exn e) w2)))"

text \<open>
  \<^verbatim>\<open>lint_yaml\<close> and \<^verbatim>\<open>lint_action\<close> read the configuration outside any \<^verbatim>\<open>try\<close>: a section that
  is not a mapping, or flags that cannot be iterated, raise out of \<^verbatim>\<open>main\<close>.
\<close>

definition lint_yaml :: "env \<Rightarrow> string \<Rightarrow> pydict \<Rightarrow> bool \<Rightarrow> world \<Rightarrow> (exn + string) \<times> world" where
  "lint_yaml env file_path config verbose w =
     (case py_get (PDict config) ''yamllint'' (PDict []) of
        Inl e \<Rightarrow> (Inl e, w)
      | Inr section \<Rightarrow>
     (case py_get section ''rules'' (PDict []) of
        Inl e \<Rightarrow> (Inl e, w)
      | Inr rules \<Rightarrow>
     (case py_items rules of
        Inl e \<Rightarrow> (Inl e, w)
      | Inr items \<Rightarrow>
          (let rules_str = str_join '','' (map (\<lambda>(k, v). py_str env k @ '': '' @ py_str env v) items);
               yamllint_cmd =
                 [PStr ''yamllint'', PStr ''-d'',
                  PStr (''{extends: default, rules: {'' @ rules_str @ ''}}''),
                  PStr file_path];
               (out, w') = run_command env yamllint_cmd verbose w
           in (Inr out, w')))))"

definition lint_action ::
  "env \<Rightarrow> string \<Rightarrow> pydict \<Rightarrow> bool \<Rightarrow> bool \<Rightarrow> world \<Rightarrow> (exn + string) \<times> world" where
  "lint_action env file_path config verbose json_output w =
     (let cmd = [PStr ''actionlint'']
                @ (if json_output then [PStr ''-format=json'']
                   else if verbose then [PStr ''-verbose''] else [])
      in case py_get (PDict config) ''actionlint'' (PDict []) of
           Inl e \<Rightarrow> (Inl e, w)
         | Inr section \<Rightarrow>
        (case py_get section ''flags'' (PList []) of
           Inl e \<Rightarrow> (Inl e, w)
         | Inr flags \<Rightarrow>
        (case py_iter flags of
           Inl e \<Rightarrow> (Inl e, w)
         | Inr extra \<Rightarrow>
             (let (out, w') = run_command env (cmd @ extra @ [PStr file_path]) verbose w
              in (Inr out, w')))))"

subsection \<open>The main loop\<close>

text \<open>
  The loop of \<^verbatim>\<open>main\<close> carries the flag \<^verbatim>\<open>has_errors\<close>. Its body is given in two halves, one
  for each linter; each takes the flag and returns it, or the exception that leaves
  \<^verbatim>\<open>main\<close>.
\<close>

definition check_yamllint ::
  "env \<Rightarrow> args \<Rightarrow> pydict \<Rightarrow> string \<Rightarrow> bool \<times> world \<Rightarrow> (exn + bool) \<times> world" where
  "check_yamllint env a config file = (\<lambda>(has_errors, w).
     (let w1 = print (''  '' @ bullet @ '' yamllint:'') w
      in case lint_yaml env file config (arg_verbose a \<or> arg_debug a) w1 of
           (Inl e, w2) \<Rightarrow> (Inl e, w2)
         | (Inr yamllint_output, w2) \<Rightarrow>
             (let w3 = print yamllint_output w2
              in (Inr (if str_in ''error'' (lower yamllint_output) then True else has_errors),
                  w3))))"

definition check_actionlint ::
  "env \<Rightarrow> args \<Rightarrow> pydict \<Rightarrow> string \<Rightarrow> bool \<times> world \<Rightarrow> (exn + bool) \<times> world" where
  "check_actionlint env a config file = (\<lambda>(has_errors, w).
     (let w1 = print (''  '' @ bullet @ '' actionlint:'') w
      in case lint_action env file config (arg_verbose a \<or> arg_debug a) (arg_json a) w1 of
           (Inl e, w2) \<Rightarrow> (Inl e, w2)
         | (Inr actionlint_output, w2) \<Rightarrow>
             if arg_json a
             then (case json_loads env actionlint_output of
                     Inr parsed \<Rightarrow>
                       (Inr (if truthy parsed then True else has_errors),
                        print (json_dumps env parsed) w2)
                   | Inl (JSONDecodeError m) \<Rightarrow>
                       (Inr True,
                        print actionlint_output
                          (print (warning_sign @ '' Failed to parse JSON output.'') w2))
                   | Inl e \<Rightarrow> (Inl e, w2))
             else (Inr (if strip actionlint_output \<noteq> [] then True else has_errors),
                   print actionlint_output w2)))"

definition check_file ::
  "env \<Rightarrow> args \<Rightarrow> pydict \<Rightarrow> string \<Rightarrow> bool \<times> world \<Rightarrow> (exn + bool) \<times> world" where
  "check_file env a config file = (\<lambda>(has_errors, w).
     (case check_yamllint env a config file
             (has_errors, print (newline @ page @ '' Checking: '' @ file) w) of
        (Inl e, w1) \<Rightarrow> (Inl e, w1)
      | (Inr has_errors1, w1) \<Rightarrow> check_actionlint env a config file (has_errors1, w1)))"

fun check_files ::
  "env \<Rightarrow> args \<Rightarrow> pydict \<Rightarrow> string list \<Rightarrow> bool \<times> world \<Rightarrow> (exn + bool) \<times> world" where
  "check_files env a config [] (has_errors, w) = (Inr has_errors, w)"
| "check_files env a config (file # files) (has_errors, w) =
     (case check_file env a config file (has_errors, w) of
        (Inl e, w1) \<Rightarrow> (Inl e, w1)
      | (Inr has_errors1, w1) \<Rightarrow> check_files env a config files (has_errors1, w1))"

text \<open>
  The second half of \<^verbatim>\<open>main\<close>, from \<^verbatim>\<open>if not files_to_check:\<close> to the end: the loop and
  the verdict.
\<close>

definition check_all :: "env \<Rightarrow> args \<Rightarrow> pydict \<Rightarrow> string list \<Rightarrow> world \<Rightarrow> (exn + int) \<times> world" where
  "check_all env a config files_to_check w =
     (if files_to_check = []
      then (Inr 0, print (warning_sign @ '' No workflow files found.'') w)
      else (case check_files env a config files_to_check (False, w) of
              (Inl e, w1) \<Rightarrow> (Inl e, w1)
            | (Inr has_errors, w1) \<Rightarrow>
                if has_errors
                then (Inr 1, print (newline @ cross_mark @ '' Checks completed with errors.'') w1)
                else (Inr 0,
                      print (newline @ check_mark @ '' All checks completed successfully.'') w1)))"

text \<open>
  \<^verbatim>\<open>main\<close>, after the arguments are parsed. \<^verbatim>\<open>if args.file:\<close> is false for no \<^verbatim>\<open>-f\<close> and for
  \<^verbatim>\<open>-f ""\<close>. The result is the returned exit code, or the exception that escapes: the
  \<^verbatim>\<open>json.dumps\<close> of \<^verbatim>\<open>-d\<close>, the two path tests and the directory walk are outside any \<^verbatim>\<open>try\<close>.
  In \<^verbatim>\<open>not target.exists() or not target.is_file()\<close> the second test runs only when the
  first answers yes. What \<^verbatim>\<open>json.loads\<close> returned is plain JSON data, which \<^verbatim>\<open>json.dumps\<close>
  accepts: only the \<^verbatim>\<open>json.dumps\<close> of the configuration can raise.
\<close>

definition main :: "env \<Rightarrow> args \<Rightarrow> world \<Rightarrow> (exn + int) \<times> world" where
  "main env a w =
     (let (config, w1) = load_config env (arg_config a) w
      in case (if arg_debug a
               then (case json_dumps_error env (PDict config) of
                       Some e \<Rightarrow> Inl e
                     | None \<Rightarrow>
                         Inr (print (''Configuration: '' @ json_dumps env (PDict config)) w1))
               else Inr w1) of
           Inl e \<Rightarrow> (Inl e, w1)
         | Inr w2 \<Rightarrow>
             if arg_file a \<noteq> None \<and> arg_file a \<noteq> Some []
             then (let target = path_str env (the (arg_file a))
                   in case path_exists env target of
                        Inl e \<Rightarrow> (Inl e, w2)
                      | Inr found \<Rightarrow>
                     (case (if found then path_is_file env target else Inr False) of
                        Inl e \<Rightarrow> (Inl e, w2)
                      | Inr regular \<Rightarrow>
                          if \<not> found \<or> \<not> regular
                          then (Inr 1,
                                print (cross_mark @ '' Specified file does not exist: '' @ target)
                                  w2)
                          else check_all env a config [target] w2))
             else (let workflows_dir = path_str env ''.github/workflows''
                   in case path_exists env workflows_dir of
                        Inl e \<Rightarrow> (Inl e, w2)
                      | Inr found \<Rightarrow>
                          if \<not> found
                          then (Inr 0,
                                print (warning_sign @ '' .github/workflows directory not found.'')
                                  w2)
                          else (case find_workflow_files env workflows_dir of
                                  Inl e \<Rightarrow> (Inl e, w2)
                                | Inr files \<Rightarrow> check_all env a config files w2)))"

text \<open>
  The script itself: \<^verbatim>\<open>check_dependencies()\<close>, then \<^verbatim>\<open>sys.exit(main())\<close>. An exception that
  escapes \<^verbatim>\<open>main\<close> ends the interpreter with exit status 1, after its traceback on standard
  error.
\<close>

definition exit_status :: "exn + int \<Rightarrow> int" where
  "exit_status r = (case r of Inl e \<Rightarrow> 1 | Inr code \<Rightarrow> code)"

definition program :: "env \<Rightarrow> args \<Rightarrow> world \<Rightarrow> int \<times> world" where
  "program env a w =
     (case check_dependencies env w of
        (Some code, w1) \<Rightarrow> (code, w1)
      | (None, w1) \<Rightarrow>
          (case main env a w1 of
             (Inl e, w2) \<Rightarrow> (exit_status (Inl e), w2\<lparr>tracebacks := tracebacks w2 @ [e]\<rparr>)
           | (Inr code, w2) \<Rightarrow> (exit_status (Inr code), w2)))"

subsection \<open>Notions used to state the properties\<close>

text \<open>
  What \<^verbatim>\<open>run_command\<close> returns for a call of \<^verbatim>\<open>subprocess.run\<close> that ended as \<open>r\<close>: the three
  \<^verbatim>\<open>return\<close> statements of the function.
\<close>

definition returned_text :: "proc_result \<Rightarrow> string" where
  "returned_text r =
     (case r of
        Completed returncode out err \<Rightarrow> if returncode = 0 then out else out @ err
      | Undecodable returncode raw_out raw_err e \<Rightarrow> ''Error: '' @ str_exn e
      | Raised e \<Rightarrow> ''Error: '' @ str_exn e)"

text \<open>The word "error" in some letter-casing: five letters, each in either case.\<close>

definition spells_error :: "string \<Rightarrow> bool" where
  "spells_error m =
     list_all2 (\<lambda>c (l, u). c = l \<or> c = u) m
       [(CHR ''e'', CHR ''E''), (CHR ''r'', CHR ''R''), (CHR ''r'', CHR ''R''),
        (CHR ''o'', CHR ''O''), (CHR ''r'', CHR ''R'')]"

text \<open>A recorded call of yamllint whose returned text the script takes for an error.\<close>

definition erroring :: "command \<times> proc_result \<Rightarrow> bool" where
  "erroring x =
     (hd (fst x) = PStr ''yamllint'' \<and> str_in ''error'' (lower (returned_text (snd x))))"



subsection \<open>Sample surroundings\<close>

text \<open>
  A machine with both linters installed and one workflow file, on which both linters are
  silent. The JSON functions are the library's on the few texts the sample runs use.
\<close>

definition sample_loads :: "string \<Rightarrow> exn + pyval" where
  "sample_loads s =
     (if s = ''[]'' then Inr (PList [])
      else if s = ''{}'' then Inr (PDict [])
      else if s = ''null'' then Inr PNone
      else if s = ''0'' then Inr (PInt 0)
      else if s = ''false'' then Inr (PBool False)
      else if s = [CHR 0x22, CHR 0x22] then Inr (PStr [])
      else if s = ''[{'' @ [CHR 0x22] @ ''a'' @ [CHR 0x22] @ '': 1}]''
           then Inr (PList [PDict [(PStr ''a'', PInt 1)]])
      else Inl (JSONDecodeError ''Expecting value: line 1 column 1 (char 0)''))"

definition sample_dumps :: "pyval \<Rightarrow> string" where
  "sample_dumps v =
     (if v = PList [PDict [(PStr ''a'', PInt 1)]]
      then ''['' @ newline @ ''  {'' @ newline @ ''    '' @ [CHR 0x22] @ ''a'' @ [CHR 0x22]
           @ '': 1'' @ newline @ ''  }'' @ newline @ '']''
      else if v = PList [] then ''[]''
      else if v = PDict [] then ''{}''
      else if v = PNone then ''null''
      else if v = PInt 0 then ''0''
      else if v = PBool False then ''false''
      else [CHR 0x22, CHR 0x22])"

definition quiet :: env where
  "quiet =
     \<lparr> which = (\<lambda>tool. True),
       path_str = (\<lambda>s. if s = [] then ''.'' else s),
       path_exists =
         (\<lambda>p. Inr (p \<in> set [''.'', ''.github/workflows'', ''.github/workflows/ci.yml''])),
       path_is_file = (\<lambda>p. Inr (p = ''.github/workflows/ci.yml'')),
       rglob = (\<lambda>dir pat. Inr (if dir = ''.github/workflows'' \<and> pat = ''*.yml''
                               then [''.github/workflows/ci.yml''] else [])),
       safe_load = (\<lambda>p. Inl (OtherError ''[Errno 2] No such file or directory'')),
       subprocess_run = (\<lambda>history cmd. Completed 0 [] []),
       json_loads = sample_loads,
       json_dumps_error = (\<lambda>v. None),
       json_dumps = sample_dumps,
       py_str = (\<lambda>v. case v of PStr s \<Rightarrow> s | _ \<Rightarrow> []) \<rparr>"

definition no_args :: args where
  "no_args = \<lparr> arg_debug = False, arg_verbose = False, arg_json = False,
               arg_file = None, arg_config = None \<rparr>"

definition fresh :: world where
  "fresh = \<lparr> stdout = [], calls = [], tracebacks = [] \<rparr>"

text \<open>The same machine with a yamllint that exits with 1 and reports an error.\<close>

definition shouting :: env where
  "shouting =
     quiet\<lparr> subprocess_run := (\<lambda>history cmd.
              if hd cmd = PStr ''yamllint''
              then Completed 1 ''ci.yml: [ERROR] syntax'' []
              else Completed 0 [] []) \<rparr>"


definition ci_yml :: string where
  "ci_yml = ''.github/workflows/ci.yml''"

definition yamllint_ci :: command where
  "yamllint_ci =
     [PStr ''yamllint'', PStr ''-d'',
      PStr ''{extends: default, rules: {line-length: disable}}'', PStr ci_yml]"

text \<open>The same machine with an actionlint that exits with \<open>code\<close> after printing \<open>text\<close>.\<close>

definition actionlint_says :: "int \<Rightarrow> string \<Rightarrow> env" where
  "actionlint_says code text =
     quiet\<lparr> subprocess_run := (\<lambda>history cmd.
              if hd cmd = PStr ''actionlint'' then Completed code text [] else Completed 0 [] []) \<rparr>"

definition json_args :: args where
  "json_args = no_args\<lparr> arg_json := True \<rparr>"

definition one_issue :: string where
  "one_issue = ''[{'' @ [CHR 0x22] @ ''a'' @ [CHR 0x22] @ '': 1}]''"

text \<open>The same machine with a configuration file that parses to \<open>doc\<close>.\<close>

definition configured :: "pyval \<Rightarrow> env" where
  "configured doc = quiet\<lparr> safe_load := (\<lambda>p. Inr doc) \<rparr>"

text \<open>A machine without yamllint and without a workflow directory.\<close>

definition bare :: env where
  "bare = quiet\<lparr> which := (\<lambda>tool. tool \<noteq> ''yamllint''), path_exists := (\<lambda>p. Inr False) \<rparr>"

text \<open>A machine with two workflow files; yamllint reports an error in the first only.\<close>

definition two_files :: env where
  "two_files =
     quiet\<lparr> rglob := (\<lambda>dir pat. Inr (if pat = ''*.yml'' then [''a.yml'', ''b.yml''] else [])),
            subprocess_run := (\<lambda>history cmd.
              if hd cmd = PStr ''yamllint'' \<and> last cmd = PStr ''a.yml''
              then Completed 1 ''a.yml: error'' []
              else Completed 0 [] []) \<rparr>"

text \<open>The same machine without a workflow directory, and with one that holds no YAML file.\<close>

definition no_workflows :: env where
  "no_workflows = quiet\<lparr> path_exists := (\<lambda>p. Inr False) \<rparr>"

definition empty_workflows :: env where
  "empty_workflows = quiet\<lparr> rglob := (\<lambda>dir pat. Inr []) \<rparr>"


definition actionlint_ci :: command where
  "actionlint_ci = [PStr ''actionlint'', PStr ci_yml]"


text \<open>
  The same machine without a workflow directory, run with \<^verbatim>\<open>-d -c cfg.yml\<close> on a
  configuration file that gives \<^verbatim>\<open>yamllint\<close> a date.
\<close>

definition dated_doc :: pyval where
  "dated_doc = PDict [(PStr ''yamllint'', PDate ''2001-12-14'')]"

definition dated :: env where
  "dated =
     quiet\<lparr> path_exists := (\<lambda>p. Inr False),
            safe_load := (\<lambda>p. Inr dated_doc),
            json_dumps_error := (\<lambda>v.
              if v = PDict [(PStr ''yamllint'', PDate ''2001-12-14''),
                            (PStr ''actionlint'', PDict [(PStr ''flags'', PList [])])]
              then Some (TypeError ''Object of type date is not JSON serializable'')
              else None) \<rparr>"

definition debug_args :: args where
  "debug_args = no_args\<lparr> arg_debug := True, arg_config := Some ''cfg.yml'' \<rparr>"

text \<open>The same machine with a workflow directory that holds one directory, \<^verbatim>\<open>dir.yml\<close>.\<close>

definition dir_yml :: string where
  "dir_yml = ''.github/workflows/dir.yml''"

definition only_a_directory :: env where
  "only_a_directory =
     quiet\<lparr> path_is_file := (\<lambda>p. Inr False),
            rglob := (\<lambda>dir pat. Inr (if pat = ''*.yml'' then [dir_yml] else [])) \<rparr>"

text \<open>The same machine on which the path tests raise: the name is too long.\<close>

definition name_too_long :: exn where
  "name_too_long = OtherError ''[Errno 36] File name too long''"

definition unreachable :: env where
  "unreachable = quiet\<lparr> path_exists := (\<lambda>p. Inl name_too_long) \<rparr>"

definition gone_args :: args where
  "gone_args = no_args\<lparr> arg_file := Some ''gone.yml'' \<rparr>"





section \<open>Properties\<close>

subsection \<open>Strings\<close>

lemma lower_append: "lower (a @ b) = lower a @ lower b"
  by (simp add: lower_def)

lemma str_in_prefix: "str_in pat (pat @ post)"
proof (cases "pat @ post")
  case Nil
  then show ?thesis by simp
next
  case (Cons c cs)
  have "take (length pat) (pat @ post) = pat" by simp
  with Cons show ?thesis by simp
qed

lemma str_in_Cons: "str_in pat s \<Longrightarrow> str_in pat (c # s)"
  by simp

lemma str_in_append: "str_in pat (pre @ pat @ post)"
  by (induction pre) (auto simp: str_in_prefix simp del: str_in.simps intro: str_in_Cons)

lemma str_in_iff: "str_in pat s \<longleftrightarrow> (\<exists>pre post. s = pre @ pat @ post)"
proof
  show "str_in pat s \<Longrightarrow> \<exists>pre post. s = pre @ pat @ post"
  proof (induction s)
    case Nil
    then show ?case by simp
  next
    case (Cons c cs)
    show ?case
    proof (cases "take (length pat) (c # cs) = pat")
      case True
      then have "c # cs = [] @ pat @ drop (length pat) (c # cs)"
        by (metis append_Nil append_take_drop_id)
      then show ?thesis by blast
    next
      case False
      with Cons.prems have "str_in pat cs" by simp
      then obtain pre post where "cs = pre @ pat @ post" using Cons.IH by blast
      then have "c # cs = (c # pre) @ pat @ post" by simp
      then show ?thesis by blast
    qed
  qed
next
  show "\<exists>pre post. s = pre @ pat @ post \<Longrightarrow> str_in pat s"
    using str_in_append by blast
qed

lemma lower_char_letters:
  "lower_char CHR ''e'' = CHR ''e''" "lower_char CHR ''E'' = CHR ''e''"
  "lower_char CHR ''r'' = CHR ''r''" "lower_char CHR ''R'' = CHR ''r''"
  "lower_char CHR ''o'' = CHR ''o''" "lower_char CHR ''O'' = CHR ''o''"
  by code_simp+

lemma lower_spells: "spells_error m \<Longrightarrow> lower m = ''error''"
  unfolding spells_error_def
  by (auto simp: list_all2_Cons2 lower_def lower_char_letters)

lemma mentions_error: "spells_error m \<Longrightarrow> str_in ''error'' (lower (pre @ m @ post))"
  using str_in_append [of "''error''" "lower pre" "lower post"]
  by (simp add: lower_append lower_spells)


lemma space_prefix_Some:
  "space_prefix ws s = Some t \<Longrightarrow> t \<in> set ws \<and> take (length t) s = t"
  by (auto simp: space_prefix_def find_Some_iff)

text \<open>The fuel of \<open>lstrip\<close> is enough: what it returns starts with no white space.\<close>

lemma lstrip_fuel_done:
  assumes "\<forall>t\<in>set ws. t \<noteq> []" and "length s \<le> n"
  shows "space_prefix ws (lstrip_fuel n ws s) = None"
  using assms(2)
proof (induction n arbitrary: s)
  case 0
  then have "s = []" by simp
  moreover have "space_prefix ws [] = None"
    using assms(1) by (auto simp: space_prefix_def find_None_iff)
  ultimately show ?case by simp
next
  case (Suc n)
  show ?case
  proof (cases "space_prefix ws s")
    case None
    then show ?thesis by simp
  next
    case (Some t)
    then have "t \<in> set ws" using space_prefix_Some by blast
    then have "t \<noteq> []" using assms(1) by blast
    then have "length (drop (length t) s) \<le> n" using Suc.prems by (cases t) auto
    then show ?thesis using Some Suc.IH by simp
  qed
qed

lemma lstrip_done: "space_prefix whitespace (lstrip s) = None"
  unfolding lstrip_def by (rule lstrip_fuel_done) (simp_all add: whitespace_def)

subsection \<open>Running a command\<close>

lemma join_from_strings: "\<exists>s. join_from i sep (map PStr xs) = Inr s"
proof (induction xs arbitrary: i)
  case Nil
  then show ?case by simp
next
  case (Cons x xs)
  obtain r where "join_from (Suc i) sep (map PStr xs) = Inr r" using Cons by blast
  then show ?case by simp
qed

lemma run_command_cases:
  assumes "run_command env command verbose w = (out, w')"
  shows "(verbose \<and> calls w' = calls w \<and> (\<exists>e. py_join '' '' command = Inl e \<and> out = ''Error: '' @ str_exn e))
       \<or> (calls w' = calls w @ [(command, subprocess_run env (calls w) command)]
          \<and> out = returned_text (subprocess_run env (calls w) command))"
  using assms
  by (auto simp: run_command_def returned_text_def print_def Let_def
           split: if_splits sum.splits proc_result.splits)

lemma run_command_stdout:
  "\<exists>extra. stdout (snd (run_command env command verbose w)) = stdout w @ extra"
  by (auto simp: run_command_def print_def Let_def split: sum.splits proc_result.splits)

lemma yamllint_cmd_join:
  "\<exists>s. py_join sep [PStr a, PStr b, PStr c, PStr d] = Inr s"
  using join_from_strings [of 0 sep "[a, b, c, d]"] by (simp add: py_join_def)

lemma lint_yaml_Inl: "lint_yaml env file config verbose w = (Inl e, w') \<Longrightarrow> w' = w"
  by (auto simp: lint_yaml_def Let_def split: sum.splits prod.splits)

lemma lint_yaml_Inr:
  assumes "lint_yaml env file config verbose w = (Inr out, w')"
  shows "\<exists>cmd r. hd cmd = PStr ''yamllint'' \<and> r = subprocess_run env (calls w) cmd
           \<and> calls w' = calls w @ [(cmd, r)] \<and> out = returned_text r
           \<and> (\<exists>extra. stdout w' = stdout w @ extra)"
proof -
  from assms obtain t where
    rc: "run_command env [PStr ''yamllint'', PStr ''-d'', PStr t, PStr file] verbose w = (out, w')"
    by (auto simp: lint_yaml_def Let_def split: sum.splits prod.splits)
  obtain s where "py_join '' '' [PStr ''yamllint'', PStr ''-d'', PStr t, PStr file] = Inr s"
    using yamllint_cmd_join by blast
  with run_command_cases [OF rc]
  have "calls w' = calls w @ [([PStr ''yamllint'', PStr ''-d'', PStr t, PStr file],
                               subprocess_run env (calls w) [PStr ''yamllint'', PStr ''-d'', PStr t, PStr file])]"
    and "out = returned_text (subprocess_run env (calls w) [PStr ''yamllint'', PStr ''-d'', PStr t, PStr file])"
    by auto
  moreover have "\<exists>extra. stdout w' = stdout w @ extra"
    using run_command_stdout [of env "[PStr ''yamllint'', PStr ''-d'', PStr t, PStr file]" verbose w] rc
    by simp
  ultimately show ?thesis by (intro exI [of _ "[PStr ''yamllint'', PStr ''-d'', PStr t, PStr file]"]) simp
qed

lemma lint_action_Inl: "lint_action env file config verbose js w = (Inl e, w') \<Longrightarrow> w' = w"
  by (auto simp: lint_action_def Let_def split: sum.splits prod.splits)

lemma lint_action_Inr:
  assumes "lint_action env file config verbose js w = (Inr out, w')"
  shows "\<exists>rest. run_command env (PStr ''actionlint'' # rest) verbose w = (out, w')"
  using assms
  by (auto simp: lint_action_def Let_def split: sum.splits prod.splits)

lemma check_yamllint_cases:
  assumes "check_yamllint env a config file (has_errors, w) = (r, w')"
  shows "(\<exists>e. r = Inl e \<and> calls w' = calls w)
       \<or> (\<exists>cmd pr. hd cmd = PStr ''yamllint'' \<and> pr = subprocess_run env (calls w) cmd
            \<and> calls w' = calls w @ [(cmd, pr)]
            \<and> r = Inr (str_in ''error'' (lower (returned_text pr)) \<or> has_errors)
            \<and> (\<exists>pre. stdout w' = stdout w @ pre @ [returned_text pr]))"
proof -
  let ?w1 = "print (''  '' @ bullet @ '' yamllint:'') w"
  obtain lr w2 where l: "lint_yaml env file config (arg_verbose a \<or> arg_debug a) ?w1 = (lr, w2)"
    by (cases "lint_yaml env file config (arg_verbose a \<or> arg_debug a) ?w1") auto
  show ?thesis
  proof (cases lr)
    case (Inl e)
    with l have "w2 = ?w1" using lint_yaml_Inl by blast
    with l Inl assms show ?thesis by (auto simp: check_yamllint_def print_def)
  next
    case (Inr out)
    with l lint_yaml_Inr [of env "file" config _ ?w1 out w2]
    obtain cmd pr extra where c: "hd cmd = PStr ''yamllint''"
      "pr = subprocess_run env (calls ?w1) cmd"
      "calls w2 = calls ?w1 @ [(cmd, pr)]" "out = returned_text pr"
      "stdout w2 = stdout ?w1 @ extra"
      by blast
    have r: "r = Inr (str_in ''error'' (lower out) \<or> has_errors)" and w': "w' = print out w2"
      using l Inr assms by (auto simp: check_yamllint_def split: if_splits)
    have "calls w' = calls w @ [(cmd, pr)]" using w' c by (simp add: print_def)
    moreover have "stdout w' = stdout w @ ([''  '' @ bullet @ '' yamllint:''] @ extra) @ [out]"
      using w' c by (simp add: print_def)
    moreover have "pr = subprocess_run env (calls w) cmd" using c by (simp add: print_def)
    ultimately show ?thesis using r c by blast
  qed
qed

subsection \<open>The flag and the recorded calls\<close>

lemma calls_print [simp]: "calls (print s w) = calls w"
  by (simp add: print_def)

lemma stdout_print [simp]: "stdout (print s w) = stdout w @ [s]"
  by (simp add: print_def)

lemma lint_action_calls:
  assumes "lint_action env file config verbose js w = (lr, w')"
  shows "\<exists>new. calls w' = calls w @ new \<and> (\<forall>x\<in>set new. hd (fst x) = PStr ''actionlint'')"
proof (cases lr)
  case (Inl e)
  with assms have "w' = w" using lint_action_Inl by blast
  then show ?thesis by simp
next
  case (Inr out)
  with assms lint_action_Inr obtain rest where
    rc: "run_command env (PStr ''actionlint'' # rest) verbose w = (out, w')" by blast
  from run_command_cases [OF rc] show ?thesis by auto
qed

lemma check_actionlint_calls:
  assumes "check_actionlint env a config file (has_errors, w) = (r, w')"
  shows "\<exists>new. calls w' = calls w @ new \<and> (\<forall>x\<in>set new. hd (fst x) = PStr ''actionlint'')"
proof -
  let ?w1 = "print (''  '' @ bullet @ '' actionlint:'') w"
  obtain lr w2 where l: "lint_action env file config (arg_verbose a \<or> arg_debug a) (arg_json a) ?w1 = (lr, w2)"
    by (cases "lint_action env file config (arg_verbose a \<or> arg_debug a) (arg_json a) ?w1") auto
  from lint_action_calls [OF l] obtain new where
    n: "calls w2 = calls w @ new" "\<forall>x\<in>set new. hd (fst x) = PStr ''actionlint''" by auto
  have "calls w' = calls w2"
    using assms l by (auto simp: check_actionlint_def split: sum.splits exn.splits if_splits)
  with n show ?thesis by auto
qed

lemma check_actionlint_flag:
  assumes "check_actionlint env a config file (has_errors, w) = (Inr h', w')" "has_errors"
  shows "h'"
  using assms
  by (auto simp: check_actionlint_def split: prod.splits sum.splits exn.splits if_splits)

lemma check_file_inv:
  assumes "check_file env a config file (has_errors, w) = (r, w')"
  shows "\<exists>new. calls w' = calls w @ new
           \<and> (\<forall>h'. r = Inr h' \<longrightarrow> (has_errors \<longrightarrow> h') \<and> ((\<exists>x\<in>set new. erroring x) \<longrightarrow> h'))"
proof -
  let ?w0 = "print (newline @ page @ '' Checking: '' @ file) w"
  obtain yr w1 where y: "check_yamllint env a config file (has_errors, ?w0) = (yr, w1)"
    by (cases "check_yamllint env a config file (has_errors, ?w0)") auto
  show ?thesis
  proof (cases yr)
    case (Inl e)
    with check_yamllint_cases [OF y] have "calls w1 = calls w" by auto
    moreover from Inl y assms have "r = Inl e" "w' = w1" by (auto simp: check_file_def)
    ultimately show ?thesis by simp
  next
    case (Inr h1)
    with check_yamllint_cases [OF y] obtain cmd pr where
      c: "hd cmd = PStr ''yamllint''" "calls w1 = calls w @ [(cmd, pr)]"
         "h1 = (str_in ''error'' (lower (returned_text pr)) \<or> has_errors)"
      by auto
    from Inr y assms have a: "check_actionlint env a config file (h1, w1) = (r, w')"
      by (auto simp: check_file_def)
    from check_actionlint_calls [OF a] obtain new where
      n: "calls w' = calls w1 @ new" "\<forall>x\<in>set new. hd (fst x) = PStr ''actionlint''" by auto
    have ne: "\<forall>x\<in>set new. \<not> erroring x" using n by (auto simp: erroring_def)
    have "calls w' = calls w @ ((cmd, pr) # new)" using n c by simp
    moreover have "\<forall>h'. r = Inr h' \<longrightarrow> (has_errors \<longrightarrow> h') \<and> ((\<exists>x\<in>set ((cmd, pr) # new). erroring x) \<longrightarrow> h')"
    proof (intro allI impI conjI)
      fix h' assume r: "r = Inr h'"
      { assume has_errors
        then have h1 using c by simp
        then show h' using check_actionlint_flag a r by blast }
      { assume "\<exists>x\<in>set ((cmd, pr) # new). erroring x"
        then have "erroring (cmd, pr)" using ne by auto
        then have h1 using c by (simp add: erroring_def)
        then show h' using check_actionlint_flag a r by blast }
    qed
    ultimately show ?thesis by blast
  qed
qed

lemma check_files_inv:
  "check_files env a config files (has_errors, w) = (r, w') \<Longrightarrow>
   \<exists>new. calls w' = calls w @ new
         \<and> (\<forall>h'. r = Inr h' \<longrightarrow> (has_errors \<longrightarrow> h') \<and> ((\<exists>x\<in>set new. erroring x) \<longrightarrow> h'))"
proof (induction files arbitrary: has_errors w)
  case Nil
  then show ?case by auto
next
  case (Cons f fs)
  obtain r1 w1 where s: "check_file env a config f (has_errors, w) = (r1, w1)"
    by (cases "check_file env a config f (has_errors, w)") auto
  from check_file_inv [OF s] obtain new1 where
    n1: "calls w1 = calls w @ new1"
        "\<forall>h'. r1 = Inr h' \<longrightarrow> (has_errors \<longrightarrow> h') \<and> ((\<exists>x\<in>set new1. erroring x) \<longrightarrow> h')"
    by blast
  show ?case
  proof (cases r1)
    case (Inl e)
    with s Cons.prems have "r = Inl e" "w' = w1" by auto
    with n1 show ?thesis by auto
  next
    case (Inr h1)
    with s Cons.prems have "check_files env a config fs (h1, w1) = (r, w')" by auto
    from Cons.IH [OF this] obtain new2 where
      n2: "calls w' = calls w1 @ new2"
          "\<forall>h'. r = Inr h' \<longrightarrow> (h1 \<longrightarrow> h') \<and> ((\<exists>x\<in>set new2. erroring x) \<longrightarrow> h')"
      by blast
    have "calls w' = calls w @ (new1 @ new2)" using n1 n2 by simp
    moreover have "\<forall>h'. r = Inr h' \<longrightarrow> (has_errors \<longrightarrow> h') \<and> ((\<exists>x\<in>set (new1 @ new2). erroring x) \<longrightarrow> h')"
      using n1 n2 Inr by auto
    ultimately show ?thesis by blast
  qed
qed

lemma load_config_calls [simp]: "calls (snd (load_config env cp w)) = calls w"
  by (auto simp: load_config_def split: option.splits sum.splits)

lemma check_dependencies_calls [simp]: "calls (snd (check_dependencies env w)) = calls w"
  by (auto simp: check_dependencies_def Let_def)

lemma check_all_inv:
  assumes "check_all env a config files w = (r, w')"
  shows "\<exists>new. calls w' = calls w @ new \<and> ((\<exists>x\<in>set new. erroring x) \<longrightarrow> exit_status r = 1)"
proof (cases "files = []")
  case True
  with assms have "calls w' = calls w" by (auto simp: check_all_def)
  then show ?thesis by simp
next
  case False
  obtain r1 w1 where c: "check_files env a config files (False, w) = (r1, w1)"
    by (cases "check_files env a config files (False, w)") auto
  from check_files_inv [OF c] obtain new where
    n: "calls w1 = calls w @ new"
       "\<forall>h'. r1 = Inr h' \<longrightarrow> ((\<exists>x\<in>set new. erroring x) \<longrightarrow> h')" by blast
  have "calls w' = calls w1" using assms c False
    by (auto simp: check_all_def split: sum.splits if_splits)
  moreover have "(\<exists>x\<in>set new. erroring x) \<longrightarrow> exit_status r = 1"
    using assms c False n(2)
    by (cases r1) (auto simp: check_all_def exit_status_def split: if_splits)
  ultimately show ?thesis using n(1) by auto
qed

lemma main_inv:
  assumes "main env a w = (r, w')"
  shows "\<exists>new. calls w' = calls w @ new \<and> ((\<exists>x\<in>set new. erroring x) \<longrightarrow> exit_status r = 1)"
proof -
  obtain config w1 where l: "load_config env (arg_config a) w = (config, w1)"
    by (cases "load_config env (arg_config a) w") auto
  then have c1: "calls w1 = calls w" using load_config_calls [of env "arg_config a" w] by simp
  from assms l consider
      (early) "calls w' = calls w1"
    | (all) files w2 where "calls w2 = calls w1" "check_all env a config files w2 = (r, w')"
    unfolding main_def Let_def
    by (simp split: if_splits sum.splits option.splits) (metis calls_print)+
  then show ?thesis
  proof cases
    case early
    then show ?thesis using c1 by simp
  next
    case all
    from check_all_inv [OF all(2)] show ?thesis using c1 all(1) by simp
  qed
qed

lemma program_inv:
  assumes "program env a w = (code, w')"
  shows "\<exists>new. calls w' = calls w @ new \<and> ((\<exists>x\<in>set new. erroring x) \<longrightarrow> code = 1)"
proof -
  obtain d w1 where d: "check_dependencies env w = (d, w1)"
    by (cases "check_dependencies env w") auto
  then have c1: "calls w1 = calls w" using check_dependencies_calls [of env w] by simp
  show ?thesis
  proof (cases d)
    case (Some c)
    with d assms have "w' = w1" by (simp add: program_def)
    with c1 show ?thesis by simp
  next
    case None
    obtain r w2 where m: "main env a w1 = (r, w2)" by (cases "main env a w1") auto
    with d None assms have "code = exit_status r" "calls w' = calls w2"
      by (auto simp: program_def split: sum.splits)
    with main_inv [OF m] c1 show ?thesis by simp
  qed
qed

lemma program_yamllint_error:
  assumes "x \<in> set (drop (length (calls w)) (calls (snd (program env a w))))" "erroring x"
  shows "fst (program env a w) = 1"
proof -
  obtain code w' where p: "program env a w = (code, w')" by (cases "program env a w") auto
  from program_inv [OF p] obtain new where
    "calls w' = calls w @ new" "(\<exists>x\<in>set new. erroring x) \<longrightarrow> code = 1" by blast
  with assms p show ?thesis by auto
qed

subsection \<open>The loop\<close>

lemma check_files_append:
  "check_files env a config (xs @ ys) (h, w) =
     (case check_files env a config xs (h, w) of
        (Inl e, w1) \<Rightarrow> (Inl e, w1)
      | (Inr h1, w1) \<Rightarrow> check_files env a config ys (h1, w1))"
  by (induction xs arbitrary: h w) (auto split: prod.splits sum.splits)

lemma check_files_flag:
  assumes "check_files env a config files (True, w) = (Inr h', w')"
  shows "h'"
  using check_files_inv [OF assms] by auto

lemma check_yamllint_flag:
  "fst (check_yamllint env a config file (True, w)) \<noteq> Inr False"
  by (auto simp: check_yamllint_def split: prod.splits sum.splits)

lemma check_actionlint_keeps:
  "fst (check_actionlint env a config file (True, w)) \<noteq> Inr False"
  by (auto simp: check_actionlint_def split: prod.splits sum.splits exn.splits)

lemma check_actionlint_json:
  assumes "arg_json a"
    and "fst (lint_action env file config (arg_verbose a \<or> arg_debug a) (arg_json a)
                (print (''  '' @ bullet @ '' actionlint:'') w)) = Inr out"
  shows "fst (check_actionlint env a config file (has_errors, w)) =
           (case json_loads env out of
              Inr parsed \<Rightarrow> Inr (truthy parsed \<or> has_errors)
            | Inl (JSONDecodeError m) \<Rightarrow> Inr True
            | Inl e \<Rightarrow> Inl e)"
  using assms
  by (auto simp: check_actionlint_def split: prod.splits sum.splits exn.splits)

subsection \<open>Configuration\<close>

lemma dict_get_set:
  "dict_get (dict_set d k v) k' = (if k' = k then Some v else dict_get d k')"
  by (induction d) (auto simp: dict_get_def)

lemma dict_get_update:
  "dict_get (dict_update d u) k =
     (case map_of (rev u) k of Some v \<Rightarrow> Some v | None \<Rightarrow> dict_get d k)"
proof (induction u arbitrary: d)
  case Nil
  then show ?case by (simp add: dict_update_def)
next
  case (Cons x u)
  obtain k1 v1 where x: "x = (k1, v1)" by (cases x)
  have "dict_update d (x # u) = dict_update (dict_set d k1 v1) u"
    by (simp add: dict_update_def x)
  then show ?case
    using Cons.IH [of "dict_set d k1 v1"]
    by (auto simp: x dict_get_set map_add_def split: option.splits)
qed

lemma dict_get_update_absent:
  "k \<notin> fst ` set u \<Longrightarrow> dict_get (dict_update d u) k = dict_get d k"
proof -
  assume "k \<notin> fst ` set u"
  then have "map_of (rev u) k = None" by (simp add: map_of_eq_None_iff)
  then show ?thesis by (simp add: dict_get_update)
qed

lemma dict_get_update_present:
  "distinct (map fst u) \<Longrightarrow> (k, v) \<in> set u \<Longrightarrow> dict_get (dict_update d u) k = Some v"
proof -
  assume d: "distinct (map fst u)" and m: "(k, v) \<in> set u"
  have "distinct (map fst (rev u))" using d by (simp add: rev_map [symmetric])
  moreover have "(k, v) \<in> set (rev u)" using m by simp
  ultimately have "map_of (rev u) k = Some v" by (rule map_of_is_SomeI)
  then show ?thesis by (simp add: dict_get_update)
qed

lemma load_config_mapping:
  "p \<noteq> [] \<Longrightarrow> safe_load env p = Inr (PDict u) \<Longrightarrow>
   load_config env (Some p) w = (dict_update DEFAULT_CONFIG u, w)"
  by (simp add: load_config_def try_load_def)

lemma try_load_not_mapping:
  "safe_load env p = Inr doc \<Longrightarrow> \<forall>u. doc \<noteq> PDict u \<Longrightarrow>
   try_load env p = Inl (TypeError ([CHR 0x27] @ type_name doc @ [CHR 0x27] @ '' object is not a mapping''))"
  by (cases doc) (auto simp: try_load_def)

lemma load_config_failure:
  "p \<noteq> [] \<Longrightarrow> try_load env p = Inl e \<Longrightarrow>
   load_config env (Some p) w =
     (DEFAULT_CONFIG,
      print ''Using default configuration.''
        (print (warning_sign @ '' Error loading config file: '' @ str_exn e) w))"
  by (simp add: load_config_def)

lemma load_config_none: "load_config env None w = (DEFAULT_CONFIG, w)"
  by (simp add: load_config_def)

lemma check_yamllint_config_arg:
  "check_yamllint env (a\<lparr>arg_config := c\<rparr>) config file st = check_yamllint env a config file st"
  by (cases st) (simp add: check_yamllint_def split: prod.splits sum.splits)

lemma check_actionlint_config_arg:
  "check_actionlint env (a\<lparr>arg_config := c\<rparr>) config file st = check_actionlint env a config file st"
  by (cases st) (simp add: check_actionlint_def split: prod.splits sum.splits exn.splits)

lemma check_file_config_arg:
  "check_file env (a\<lparr>arg_config := c\<rparr>) config file st = check_file env a config file st"
  by (cases st)
     (simp add: check_file_def check_yamllint_config_arg check_actionlint_config_arg
           split: prod.splits sum.splits)

lemma check_files_config_arg:
  "check_files env (a\<lparr>arg_config := c\<rparr>) config files st = check_files env a config files st"
proof (induction files arbitrary: st)
  case Nil
  then show ?case by (cases st) simp
next
  case (Cons f fs)
  then show ?case
    by (cases st) (simp add: check_file_config_arg split: prod.splits sum.splits)
qed

lemma check_all_config_arg:
  "check_all env (a\<lparr>arg_config := c\<rparr>) config files w = check_all env a config files w"
  by (simp add: check_all_def check_files_config_arg)

subsection \<open>The ways out of main\<close>

lemma load_config_stdout: "\<exists>extra. stdout (snd (load_config env cp w)) = stdout w @ extra"
  by (auto simp: load_config_def split: option.splits sum.splits)

lemma tracebacks_print [simp]: "tracebacks (print s w) = tracebacks w"
  by (simp add: print_def)

lemma load_config_tracebacks [simp]: "tracebacks (snd (load_config env cp w)) = tracebacks w"
  by (auto simp: load_config_def split: option.splits sum.splits)

text \<open>\<^verbatim>\<open>main\<close> up to the file and directory tests.\<close>

lemma main_setup:
  assumes "arg_debug a \<longrightarrow> json_dumps_error env (PDict (fst (load_config env (arg_config a) w))) = None"
  shows "\<exists>w2 pre.
    calls w2 = calls w \<and> tracebacks w2 = tracebacks w \<and> stdout w2 = stdout w @ pre \<and>
    main env a w =
      (let config = fst (load_config env (arg_config a) w)
       in if arg_file a \<noteq> None \<and> arg_file a \<noteq> Some []
          then (case path_exists env (path_str env (the (arg_file a))) of
                  Inl e \<Rightarrow> (Inl e, w2)
                | Inr found \<Rightarrow>
               (case (if found then path_is_file env (path_str env (the (arg_file a)))
                      else Inr False) of
                  Inl e \<Rightarrow> (Inl e, w2)
                | Inr regular \<Rightarrow>
                    if \<not> found \<or> \<not> regular
                    then (Inr 1, print (cross_mark @ '' Specified file does not exist: ''
                                        @ path_str env (the (arg_file a))) w2)
                    else check_all env a config [path_str env (the (arg_file a))] w2))
          else (case path_exists env (path_str env ''.github/workflows'') of
                  Inl e \<Rightarrow> (Inl e, w2)
                | Inr found \<Rightarrow>
                    if \<not> found
                    then (Inr 0, print (warning_sign @ '' .github/workflows directory not found.'') w2)
                    else (case find_workflow_files env (path_str env ''.github/workflows'') of
                            Inl e \<Rightarrow> (Inl e, w2)
                          | Inr files \<Rightarrow> check_all env a config files w2)))"
proof -
  obtain config w1 where l: "load_config env (arg_config a) w = (config, w1)"
    by (cases "load_config env (arg_config a) w") auto
  define w2 where "w2 = (if arg_debug a
                then print (''Configuration: '' @ json_dumps env (PDict config)) w1
                else w1)"
  have c: "calls w2 = calls w"
    using load_config_calls [of env "arg_config a" w] l by (simp add: w2_def)
  have t: "tracebacks w2 = tracebacks w"
    using load_config_tracebacks [of env "arg_config a" w] l by (simp add: w2_def)
  obtain extra where "stdout w1 = stdout w @ extra"
    using load_config_stdout [of env "arg_config a" w] l by auto
  then have s: "stdout w2 = stdout w @ (if arg_debug a
        then extra @ [''Configuration: '' @ json_dumps env (PDict config)] else extra)"
    by (simp add: w2_def)
  have d: "(if arg_debug a
               then (case json_dumps_error env (PDict config) of
                       Some e \<Rightarrow> Inl e
                     | None \<Rightarrow>
                         Inr (print (''Configuration: '' @ json_dumps env (PDict config)) w1))
               else Inr w1) = Inr w2"
    using assms l by (simp add: w2_def)
  have "main env a w =
      (let config = fst (load_config env (arg_config a) w)
       in if arg_file a \<noteq> None \<and> arg_file a \<noteq> Some []
          then (case path_exists env (path_str env (the (arg_file a))) of
                  Inl e \<Rightarrow> (Inl e, w2)
                | Inr found \<Rightarrow>
               (case (if found then path_is_file env (path_str env (the (arg_file a)))
                      else Inr False) of
                  Inl e \<Rightarrow> (Inl e, w2)
                | Inr regular \<Rightarrow>
                    if \<not> found \<or> \<not> regular
                    then (Inr 1, print (cross_mark @ '' Specified file does not exist: ''
                                        @ path_str env (the (arg_file a))) w2)
                    else check_all env a config [path_str env (the (arg_file a))] w2))
          else (case path_exists env (path_str env ''.github/workflows'') of
                  Inl e \<Rightarrow> (Inl e, w2)
                | Inr found \<Rightarrow>
                    if \<not> found
                    then (Inr 0, print (warning_sign @ '' .github/workflows directory not found.'') w2)
                    else (case find_workflow_files env (path_str env ''.github/workflows'') of
                            Inl e \<Rightarrow> (Inl e, w2)
                          | Inr files \<Rightarrow> check_all env a config files w2)))"
    unfolding main_def l by (simp add: d Let_def)
  with c t s show ?thesis by blast
qed

text \<open>When the \<^verbatim>\<open>json.dumps\<close> of \<^verbatim>\<open>-d\<close> raises, \<^verbatim>\<open>main\<close> raises before it tests any path.\<close>

lemma main_dump_raises:
  assumes "arg_debug a"
    and "json_dumps_error env (PDict (fst (load_config env (arg_config a) w))) = Some e"
  shows "main env a w = (Inl e, snd (load_config env (arg_config a) w))"
proof -
  obtain config w1 where l: "load_config env (arg_config a) w = (config, w1)"
    by (cases "load_config env (arg_config a) w") auto
  with assms show ?thesis unfolding main_def l by simp
qed

lemma program_installed:
  "which env ''yamllint'' \<Longrightarrow> which env ''actionlint'' \<Longrightarrow>
   program env a w =
     (case main env a w of
        (Inl e, w2) \<Rightarrow> (1, w2\<lparr>tracebacks := tracebacks w2 @ [e]\<rparr>)
      | (Inr code, w2) \<Rightarrow> (code, w2))"
  by (simp add: program_def check_dependencies_def exit_status_def split: prod.splits sum.splits)

lemma program_missing:
  "\<not> (which env ''yamllint'' \<and> which env ''actionlint'') \<Longrightarrow>
   fst (program env a w) = 1 \<and> calls (snd (program env a w)) = calls w
   \<and> (\<exists>msg. stdout (snd (program env a w)) = stdout w @ [cross_mark @ msg])"
  by (auto simp: program_def check_dependencies_def)

subsection \<open>What a recorded call returned\<close>





subsection \<open>Returning from the loop\<close>









subsection \<open>The claims\<close>

text \<open>
  C1. A yamllint output that holds the word "error" in any letter-casing fails the run,
  whatever actionlint prints. Let \<open>m\<close> spell "error" in some casing. First, in the loop
  body: when \<^verbatim>\<open>lint_yaml\<close> returns a text \<open>pre @ m @ post\<close>, the yamllint half of the body
  leaves the flag \<^verbatim>\<open>has_errors\<close> set. Second, for the whole script: when one of the calls
  it made was a call of yamllint for which \<^verbatim>\<open>run_command\<close> returned such a text, the exit
  code is 1. Nothing is assumed about the calls of actionlint.
\<close>

theorem yamllint_error_fails_run:
  assumes "spells_error m"
  shows "(fst (lint_yaml env file config (arg_verbose a \<or> arg_debug a)
                 (print (''  '' @ bullet @ '' yamllint:'') w)) = Inr (pre @ m @ post)
            \<longrightarrow> fst (check_yamllint env a config file (has_errors, w)) = Inr True)
       \<and> ((cmd, r) \<in> set (drop (length (calls w)) (calls (snd (program env a w))))
            \<and> hd cmd = PStr ''yamllint'' \<and> returned_text r = pre @ m @ post
            \<longrightarrow> fst (program env a w) = 1)"
proof (intro conjI impI)
  assume "fst (lint_yaml env file config (arg_verbose a \<or> arg_debug a)
                 (print (''  '' @ bullet @ '' yamllint:'') w)) = Inr (pre @ m @ post)"
  then show "fst (check_yamllint env a config file (has_errors, w)) = Inr True"
    using mentions_error [OF assms, of pre post]
    by (auto simp: check_yamllint_def split: prod.splits sum.splits)
next
  assume h: "(cmd, r) \<in> set (drop (length (calls w)) (calls (snd (program env a w))))
            \<and> hd cmd = PStr ''yamllint'' \<and> returned_text r = pre @ m @ post"
  then have "erroring (cmd, r)"
    using mentions_error [OF assms, of pre post] by (simp add: erroring_def)
  with h show "fst (program env a w) = 1" using program_yamllint_error by blast
qed

theorem yamllint_error_fails_run_witness:
  "spells_error ''ERROR''
   \<and> fst (check_yamllint shouting no_args DEFAULT_CONFIG ci_yml (False, fresh)) = Inr True
   \<and> fst (program shouting no_args fresh) = 1"
proof -
  have s: "spells_error ''ERROR''" by code_simp
  have y: "fst (lint_yaml shouting ci_yml DEFAULT_CONFIG (arg_verbose no_args \<or> arg_debug no_args)
                 (print (''  '' @ bullet @ '' yamllint:'') fresh)) = Inr (''ci.yml: ['' @ ''ERROR'' @ ''] syntax'')"
    by code_simp
  have c: "(yamllint_ci, Completed 1 ''ci.yml: [ERROR] syntax'' [])
             \<in> set (drop (length (calls fresh)) (calls (snd (program shouting no_args fresh))))
           \<and> hd yamllint_ci = PStr ''yamllint''
           \<and> returned_text (Completed 1 ''ci.yml: [ERROR] syntax'' []) = ''ci.yml: ['' @ ''ERROR'' @ ''] syntax''"
    by code_simp
  from yamllint_error_fails_run [OF s, of shouting ci_yml DEFAULT_CONFIG no_args fresh "''ci.yml: [''" "''] syntax''"
      False yamllint_ci "Completed 1 ''ci.yml: [ERROR] syntax'' []"] s y c
  show ?thesis by blast
qed

text \<open>
  C2. In JSON mode (\<^verbatim>\<open>-j\<close>), let \<open>out\<close> be the text \<^verbatim>\<open>lint_action\<close> returned. When \<^verbatim>\<open>json.loads\<close>
  reads it as the empty array, as it does the text \<^verbatim>\<open>[]\<close>, the actionlint half of the loop
  body returns the flag as it got it: no error is recorded. When \<^verbatim>\<open>json.loads\<close> reads it as
  a non-empty array, the flag is set. When \<^verbatim>\<open>json.loads\<close> rejects it with \<^verbatim>\<open>JSONDecodeError\<close>,
  the flag is set too and the loop body returns normally.
\<close>

theorem json_mode_classification:
  assumes "arg_json a"
    and "fst (lint_action env file config (arg_verbose a \<or> arg_debug a) (arg_json a)
                (print (''  '' @ bullet @ '' actionlint:'') w)) = Inr out"
  shows "(json_loads env out = Inr (PList [])
            \<longrightarrow> fst (check_actionlint env a config file (has_errors, w)) = Inr has_errors)
       \<and> (\<forall>x xs. json_loads env out = Inr (PList (x # xs))
            \<longrightarrow> fst (check_actionlint env a config file (has_errors, w)) = Inr True)
       \<and> (\<forall>m. json_loads env out = Inl (JSONDecodeError m)
            \<longrightarrow> fst (check_actionlint env a config file (has_errors, w)) = Inr True)"
  using check_actionlint_json [OF assms, of has_errors] by auto

theorem json_mode_classification_witness:
  "fst (check_actionlint (actionlint_says 0 ''[]'') json_args DEFAULT_CONFIG ci_yml (False, fresh)) = Inr False
   \<and> fst (check_actionlint (actionlint_says 1 one_issue) json_args DEFAULT_CONFIG ci_yml (False, fresh)) = Inr True
   \<and> fst (check_actionlint (actionlint_says 1 ''ci.yml: oops'') json_args DEFAULT_CONFIG ci_yml (False, fresh)) = Inr True"
proof -
  have j: "arg_json json_args" by code_simp
  have a1: "fst (lint_action (actionlint_says 0 ''[]'') ci_yml DEFAULT_CONFIG
                  (arg_verbose json_args \<or> arg_debug json_args) (arg_json json_args)
                  (print (''  '' @ bullet @ '' actionlint:'') fresh)) = Inr ''[]''"
    and l1: "json_loads (actionlint_says 0 ''[]'') ''[]'' = Inr (PList [])"
    by code_simp+
  have a2: "fst (lint_action (actionlint_says 1 one_issue) ci_yml DEFAULT_CONFIG
                  (arg_verbose json_args \<or> arg_debug json_args) (arg_json json_args)
                  (print (''  '' @ bullet @ '' actionlint:'') fresh)) = Inr one_issue"
    and l2: "json_loads (actionlint_says 1 one_issue) one_issue = Inr (PList (PDict [(PStr ''a'', PInt 1)] # []))"
    by code_simp+
  have a3: "fst (lint_action (actionlint_says 1 ''ci.yml: oops'') ci_yml DEFAULT_CONFIG
                  (arg_verbose json_args \<or> arg_debug json_args) (arg_json json_args)
                  (print (''  '' @ bullet @ '' actionlint:'') fresh)) = Inr ''ci.yml: oops''"
    and l3: "json_loads (actionlint_says 1 ''ci.yml: oops'') ''ci.yml: oops''
               = Inl (JSONDecodeError ''Expecting value: line 1 column 1 (char 0)'')"
    by code_simp+
  from json_mode_classification [OF j a1, of False] l1
  have "fst (check_actionlint (actionlint_says 0 ''[]'') json_args DEFAULT_CONFIG ci_yml (False, fresh)) = Inr False"
    by blast
  moreover from json_mode_classification [OF j a2, of False] l2
  have "fst (check_actionlint (actionlint_says 1 one_issue) json_args DEFAULT_CONFIG ci_yml (False, fresh)) = Inr True"
    by blast
  moreover from json_mode_classification [OF j a3, of False] l3
  have "fst (check_actionlint (actionlint_says 1 ''ci.yml: oops'') json_args DEFAULT_CONFIG ci_yml (False, fresh)) = Inr True"
    by blast
  ultimately show ?thesis by blast
qed

text \<open>
  C3. When opening or parsing the configuration file at \<open>p\<close> raises (\<open>p\<close> is not empty:
  \<^verbatim>\<open>if config_path:\<close> does not try the empty path), \<^verbatim>\<open>load_config\<close> prints the warning with the
  message of the exception, then \<^verbatim>\<open>Using default configuration.\<close>, and returns
  \<^verbatim>\<open>DEFAULT_CONFIG\<close> itself. The failure is not fatal: \<^verbatim>\<open>main\<close> goes on from there exactly as
  a run without \<^verbatim>\<open>-c\<close> does.
\<close>

theorem unparsable_config_falls_back:
  assumes "p \<noteq> []" and "safe_load env p = Inl e"
  shows "load_config env (Some p) w =
           (DEFAULT_CONFIG,
            print ''Using default configuration.''
              (print (warning_sign @ '' Error loading config file: '' @ str_exn e) w))
       \<and> (arg_config a = Some p
            \<longrightarrow> main env a w =
                  main env (a\<lparr>arg_config := None\<rparr>)
                    (print ''Using default configuration.''
                      (print (warning_sign @ '' Error loading config file: '' @ str_exn e) w)))"
proof -
  have t: "try_load env p = Inl e" using assms(2) by (simp add: try_load_def)
  have l: "load_config env (Some p) w =
           (DEFAULT_CONFIG,
            print ''Using default configuration.''
              (print (warning_sign @ '' Error loading config file: '' @ str_exn e) w))"
    using assms(1) t by (rule load_config_failure)
  have "main env a w =
          main env (a\<lparr>arg_config := None\<rparr>)
            (print ''Using default configuration.''
              (print (warning_sign @ '' Error loading config file: '' @ str_exn e) w))"
    if "arg_config a = Some p"
    using that l
    by (simp add: main_def load_config_none check_all_config_arg Let_def
             cong: sum.case_cong option.case_cong if_cong)
  with l show ?thesis by simp
qed

theorem unparsable_config_falls_back_witness:
  "load_config quiet (Some ''cfg.yml'') fresh =
     (DEFAULT_CONFIG,
      \<lparr> stdout = [warning_sign @ '' Error loading config file: [Errno 2] No such file or directory'',
                   ''Using default configuration.''],
        calls = [], tracebacks = [] \<rparr>)
   \<and> fst (main quiet (no_args\<lparr>arg_config := Some ''cfg.yml''\<rparr>) fresh) = Inr 0"
proof -
  let ?e = "OtherError ''[Errno 2] No such file or directory''"
  have p: "''cfg.yml'' \<noteq> []" by simp
  have l: "safe_load quiet ''cfg.yml'' = Inl ?e" by code_simp
  have c: "arg_config (no_args\<lparr>arg_config := Some ''cfg.yml''\<rparr>) = Some ''cfg.yml''" by simp
  have m: "fst (main quiet ((no_args\<lparr>arg_config := Some ''cfg.yml''\<rparr>)\<lparr>arg_config := None\<rparr>)
              (print ''Using default configuration.''
                (print (warning_sign @ '' Error loading config file: '' @ str_exn ?e) fresh))) = Inr 0"
    by code_simp
  have w: "print ''Using default configuration.''
              (print (warning_sign @ '' Error loading config file: '' @ str_exn ?e) fresh)
           = \<lparr> stdout = [warning_sign @ '' Error loading config file: [Errno 2] No such file or directory'',
                   ''Using default configuration.''],
        calls = [], tracebacks = [] \<rparr>" by code_simp
  from unparsable_config_falls_back [OF p l, of fresh "no_args\<lparr>arg_config := Some ''cfg.yml''\<rparr>"] c m w
  show ?thesis by metis
qed

text \<open>
  C4. Let the configuration file at the non-empty path \<open>p\<close> parse to \<open>doc\<close>. Each of the two
  keys \<^verbatim>\<open>yamllint\<close> and \<^verbatim>\<open>actionlint\<close> that \<open>doc\<close> does not have keeps, in the configuration
  \<^verbatim>\<open>load_config\<close> returns, the value \<^verbatim>\<open>DEFAULT_CONFIG\<close> gives it. Each key that \<open>doc\<close>, a mapping
  (its keys distinct), does have is bound to the value \<open>doc\<close> gives it, whole: nothing of a
  default value is merged into it.
\<close>

theorem shallow_merge:
  assumes "p \<noteq> []" and "safe_load env p = Inr doc"
  shows "(\<forall>k\<in>{PStr ''yamllint'', PStr ''actionlint''}.
            (\<forall>u. doc = PDict u \<longrightarrow> k \<notin> fst ` set u)
            \<longrightarrow> dict_get (fst (load_config env (Some p) w)) k = dict_get DEFAULT_CONFIG k)
       \<and> (\<forall>u k v. doc = PDict u \<and> distinct (map fst u) \<and> (k, v) \<in> set u
            \<longrightarrow> dict_get (fst (load_config env (Some p) w)) k = Some v)"
proof (cases "\<exists>u. doc = PDict u")
  case True
  then obtain u where u: "doc = PDict u" by blast
  with assms have "load_config env (Some p) w = (dict_update DEFAULT_CONFIG u, w)"
    by (simp add: load_config_mapping)
  then show ?thesis
    using u by (auto simp: dict_get_update_absent dict_get_update_present)
next
  case False
  then have "try_load env p
               = Inl (TypeError ([CHR 0x27] @ type_name doc @ [CHR 0x27] @ '' object is not a mapping''))"
    using assms(2) try_load_not_mapping by blast
  then have "fst (load_config env (Some p) w) = DEFAULT_CONFIG"
    using assms(1) by (simp add: load_config_failure)
  with False show ?thesis by auto
qed

theorem shallow_merge_witness:
  "dict_get (fst (load_config (configured (PDict [(PStr ''yamllint'', PDict [])])) (Some ''cfg.yml'') fresh))
     (PStr ''actionlint'') = Some (PDict [(PStr ''flags'', PList [])])
   \<and> dict_get (fst (load_config (configured (PDict [(PStr ''yamllint'', PDict [])])) (Some ''cfg.yml'') fresh))
     (PStr ''yamllint'') = Some (PDict [])"
proof -
  let ?doc = "PDict [(PStr ''yamllint'', PDict [])]"
  have p: "''cfg.yml'' \<noteq> []" by simp
  have l: "safe_load (configured ?doc) ''cfg.yml'' = Inr ?doc" by code_simp
  have k: "PStr ''actionlint'' \<in> {PStr ''yamllint'', PStr ''actionlint''}" by simp
  have a: "\<forall>u. ?doc = PDict u \<longrightarrow> PStr ''actionlint'' \<notin> fst ` set u" by simp
  have d: "?doc = PDict [(PStr ''yamllint'', PDict [])]
           \<and> distinct (map fst [(PStr ''yamllint'', PDict [])])
           \<and> (PStr ''yamllint'', PDict []) \<in> set [(PStr ''yamllint'', PDict [])]" by simp
  have g: "dict_get DEFAULT_CONFIG (PStr ''actionlint'') = Some (PDict [(PStr ''flags'', PList [])])"
    by code_simp
  from shallow_merge [OF p l, of fresh] k a d g show ?thesis by metis
qed

text \<open>
  C5, as the script has it. \<^verbatim>\<open>if args.file:\<close> takes the empty string for no argument at all:
  with \<^verbatim>\<open>-f ""\<close> the script checks the workflow directory, runs both linters and can exit
  with 0.
\<close>

theorem empty_file_argument_counterexample:
  "arg_file (no_args\<lparr>arg_file := Some []\<rparr>) = Some []
   \<and> path_is_file quiet (path_str quiet []) = Inr False
   \<and> fst (program quiet (no_args\<lparr>arg_file := Some []\<rparr>) fresh) = 0
   \<and> calls (snd (program quiet (no_args\<lparr>arg_file := Some []\<rparr>) fresh))
       = [(yamllint_ci, Completed 0 [] []), (actionlint_ci, Completed 0 [] [])]"
  by code_simp

text \<open>
  C5, amended. For every file argument that is not the empty string and whose path does
  not pass both tests of \<^verbatim>\<open>main\<close> (it does not exist, or it is not a regular file, or a test
  raises), the script exits with code 1, starts no subprocess, and has reported an error:
  the last line it printed is an error line, or the interpreter reports the exception
  that escaped \<^verbatim>\<open>main\<close>. On a machine with both linters, when the \<^verbatim>\<open>json.dumps\<close> of \<^verbatim>\<open>-d\<close> does
  not raise and the tests answer, \<^verbatim>\<open>main\<close> returns 1 and that last line is
  \<^verbatim>\<open>Specified file does not exist\<close>.
\<close>

theorem missing_file_exits_1:
  assumes "arg_file a = Some f" and "f \<noteq> []"
    and "\<not> (path_exists env (path_str env f) = Inr True
            \<and> path_is_file env (path_str env f) = Inr True)"
  shows "fst (program env a w) = 1
       \<and> calls (snd (program env a w)) = calls w
       \<and> ((\<exists>pre msg. stdout (snd (program env a w)) = stdout w @ pre @ [cross_mark @ msg])
           \<or> (\<exists>e. tracebacks (snd (program env a w)) = tracebacks w @ [e]))
       \<and> (which env ''yamllint'' \<and> which env ''actionlint''
           \<and> (arg_debug a
                \<longrightarrow> json_dumps_error env (PDict (fst (load_config env (arg_config a) w))) = None)
           \<and> (path_exists env (path_str env f) = Inr False
                \<or> path_exists env (path_str env f) = Inr True
                   \<and> path_is_file env (path_str env f) = Inr False)
           \<longrightarrow> fst (main env a w) = Inr 1
               \<and> last (stdout (snd (program env a w)))
                   = cross_mark @ '' Specified file does not exist: '' @ path_str env f)"
proof (cases "which env ''yamllint'' \<and> which env ''actionlint''")
  case False
  from program_missing [OF this, of a w] show ?thesis using False by (metis append_Nil)
next
  case True
  then have p: "program env a w =
     (case main env a w of
        (Inl e, w2) \<Rightarrow> (1, w2\<lparr>tracebacks := tracebacks w2 @ [e]\<rparr>)
      | (Inr code, w2) \<Rightarrow> (code, w2))"
    by (simp add: program_installed)
  show ?thesis
  proof (cases "arg_debug a
                \<longrightarrow> json_dumps_error env (PDict (fst (load_config env (arg_config a) w))) = None")
    case False
    then obtain e where "arg_debug a"
      and "json_dumps_error env (PDict (fst (load_config env (arg_config a) w))) = Some e"
      by auto
    then have "main env a w = (Inl e, snd (load_config env (arg_config a) w))"
      by (rule main_dump_raises)
    with p False show ?thesis by simp
  next
    case d: True
    from main_setup [OF d] obtain w2 pre where
      c: "calls w2 = calls w" and t: "tracebacks w2 = tracebacks w"
      and s: "stdout w2 = stdout w @ pre"
      and m: "main env a w =
               (case path_exists env (path_str env f) of
                  Inl e \<Rightarrow> (Inl e, w2)
                | Inr found \<Rightarrow>
               (case (if found then path_is_file env (path_str env f) else Inr False) of
                  Inl e \<Rightarrow> (Inl e, w2)
                | Inr regular \<Rightarrow>
                    if \<not> found \<or> \<not> regular
                    then (Inr 1, print (cross_mark @ '' Specified file does not exist: ''
                                        @ path_str env f) w2)
                    else check_all env a (fst (load_config env (arg_config a) w))
                           [path_str env f] w2))"
      using assms(1,2) by (auto simp: Let_def cong: sum.case_cong if_cong)
    let ?line = "cross_mark @ '' Specified file does not exist: '' @ path_str env f"
    have raised: ?thesis if r: "main env a w = (Inl e, w2)"
      and n: "\<not> (path_exists env (path_str env f) = Inr False
                \<or> path_exists env (path_str env f) = Inr True
                   \<and> path_is_file env (path_str env f) = Inr False)" for e
    proof -
      from r p have "program env a w = (1, w2\<lparr>tracebacks := tracebacks w2 @ [e]\<rparr>)"
        by simp
      with n c t show ?thesis by auto
    qed
    have reported: ?thesis if r: "main env a w = (Inr 1, print ?line w2)"
    proof -
      from r p have "program env a w = (1, print ?line w2)" by simp
      moreover have "stdout (print ?line w2) = stdout w @ pre @ [?line]" using s by simp
      ultimately show ?thesis using c r by auto
    qed
    show ?thesis
    proof (cases "path_exists env (path_str env f)")
      case (Inl e)
      with m show ?thesis by (intro raised [of e]) simp_all
    next
      case found: (Inr found)
      show ?thesis
      proof (cases found)
        case False
        with found m show ?thesis by (intro reported) simp
      next
        case True
        show ?thesis
        proof (cases "path_is_file env (path_str env f)")
          case (Inl e)
          with found True m show ?thesis by (intro raised [of e]) simp_all
        next
          case (Inr regular)
          with found True assms(3) have "\<not> regular" by auto
          with Inr found True m show ?thesis by (intro reported) simp
        qed
      qed
    qed
  qed
qed

theorem missing_file_exits_1_witness:
  "fst (program quiet gone_args fresh) = 1
   \<and> calls (snd (program quiet gone_args fresh)) = []
   \<and> last (stdout (snd (program quiet gone_args fresh)))
       = cross_mark @ '' Specified file does not exist: gone.yml''
   \<and> fst (program unreachable gone_args fresh) = 1
   \<and> calls (snd (program unreachable gone_args fresh)) = []
   \<and> tracebacks (snd (program unreachable gone_args fresh)) = [name_too_long]"
proof -
  have f: "arg_file gone_args = Some ''gone.yml''" by code_simp
  have n: "''gone.yml'' \<noteq> []" by simp
  have x: "path_exists quiet (path_str quiet ''gone.yml'') = Inr False" by code_simp
  then have x1: "\<not> (path_exists quiet (path_str quiet ''gone.yml'') = Inr True
            \<and> path_is_file quiet (path_str quiet ''gone.yml'') = Inr True)" by simp
  have u: "path_exists unreachable (path_str unreachable ''gone.yml'') = Inl name_too_long"
    by code_simp
  then have u1: "\<not> (path_exists unreachable (path_str unreachable ''gone.yml'') = Inr True
            \<and> path_is_file unreachable (path_str unreachable ''gone.yml'') = Inr True)" by simp
  have i: "which quiet ''yamllint'' \<and> which quiet ''actionlint''"
    and d: "\<not> arg_debug gone_args"
    and p: "path_str quiet ''gone.yml'' = ''gone.yml''"
    and c: "calls fresh = []"
    and t: "tracebacks (snd (program unreachable gone_args fresh)) = [name_too_long]"
    by code_simp+
  from missing_file_exits_1 [OF f n x1, of fresh] i d x
  have "fst (program quiet gone_args fresh) = 1
        \<and> calls (snd (program quiet gone_args fresh)) = []
        \<and> last (stdout (snd (program quiet gone_args fresh)))
            = cross_mark @ '' Specified file does not exist: gone.yml''"
    by (simp add: p c)
  moreover from missing_file_exits_1 [OF f n u1, of fresh]
  have "fst (program unreachable gone_args fresh) = 1
        \<and> calls (snd (program unreachable gone_args fresh)) = []"
    by (simp add: c)
  ultimately show ?thesis using t by simp
qed

text \<open>
  C6, as the script has it. Three runs without a file argument. First,
  \<^verbatim>\<open>check_dependencies\<close> runs before \<^verbatim>\<open>main\<close>: on a machine without yamllint and without a
  workflow directory the script reports the missing tool and exits with 1. Second, with
  \<^verbatim>\<open>-d\<close> and a configuration that holds a date, \<^verbatim>\<open>json.dumps\<close> raises before the directory is
  looked at: the script prints nothing and exits with 1. Third, \<^verbatim>\<open>rglob\<close> returns directories
  too: in a workflow directory that holds no file, only a directory \<^verbatim>\<open>dir.yml\<close>, both
  linters are run on that directory.
\<close>

theorem missing_tool_counterexample:
  "arg_file no_args = None
   \<and> path_exists bare (path_str bare ''.github/workflows'') = Inr False
   \<and> program bare no_args fresh
       = (1, \<lparr> stdout = [cross_mark @ '' Missing tools: yamllint. Please install them before running the script.''],
               calls = [], tracebacks = [] \<rparr>)
   \<and> arg_file debug_args = None
   \<and> which dated ''yamllint'' \<and> which dated ''actionlint''
   \<and> path_exists dated (path_str dated ''.github/workflows'') = Inr False
   \<and> safe_load dated ''cfg.yml'' = Inr dated_doc
   \<and> program dated debug_args fresh
       = (1, \<lparr> stdout = [], calls = [],
               tracebacks = [TypeError ''Object of type date is not JSON serializable''] \<rparr>)
   \<and> which only_a_directory ''yamllint'' \<and> which only_a_directory ''actionlint''
   \<and> find_workflow_files only_a_directory (path_str only_a_directory ''.github/workflows'')
       = Inr [dir_yml]
   \<and> path_is_file only_a_directory dir_yml = Inr False
   \<and> map fst (calls (snd (program only_a_directory no_args fresh)))
       = [[PStr ''yamllint'', PStr ''-d'',
           PStr ''{extends: default, rules: {line-length: disable}}'', PStr dir_yml],
          [PStr ''actionlint'', PStr dir_yml]]"
  by code_simp

text \<open>
  C6, amended. On a machine with both linters, for every run without a file argument in
  which the \<^verbatim>\<open>json.dumps\<close> of \<^verbatim>\<open>-d\<close> does not raise: when \<^verbatim>\<open>Path.exists()\<close> answers that
  \<^verbatim>\<open>.github/workflows\<close> does not exist, or answers that it does and the search returns no
  entry, file or directory, that matches \<^verbatim>\<open>*.yml\<close> or \<^verbatim>\<open>*.yaml\<close>, the script exits with code 0,
  starts no subprocess, raises nothing, and the last line it prints is the warning of
  that case.
\<close>

theorem no_files_exits_0:
  assumes "which env ''yamllint''" and "which env ''actionlint''"
    and "arg_file a = None"
    and "arg_debug a
         \<longrightarrow> json_dumps_error env (PDict (fst (load_config env (arg_config a) w))) = None"
    and "path_exists env (path_str env ''.github/workflows'') = Inr False
         \<or> path_exists env (path_str env ''.github/workflows'') = Inr True
            \<and> find_workflow_files env (path_str env ''.github/workflows'') = Inr []"
  shows "fst (program env a w) = 0
       \<and> calls (snd (program env a w)) = calls w
       \<and> tracebacks (snd (program env a w)) = tracebacks w
       \<and> (\<exists>pre. stdout (snd (program env a w)) = stdout w @ pre
             @ [warning_sign
                @ (if path_exists env (path_str env ''.github/workflows'') = Inr False
                   then '' .github/workflows directory not found.''
                   else '' No workflow files found.'')])"
proof -
  from main_setup [OF assms(4)] obtain w2 pre where
    c: "calls w2 = calls w" and t: "tracebacks w2 = tracebacks w"
    and s: "stdout w2 = stdout w @ pre"
    and m: "main env a w =
      (case path_exists env (path_str env ''.github/workflows'') of
                  Inl e \<Rightarrow> (Inl e, w2)
                | Inr found \<Rightarrow>
                    if \<not> found
                    then (Inr 0, print (warning_sign @ '' .github/workflows directory not found.'') w2)
                    else (case find_workflow_files env (path_str env ''.github/workflows'') of
                            Inl e \<Rightarrow> (Inl e, w2)
                          | Inr files \<Rightarrow>
                              check_all env a (fst (load_config env (arg_config a) w)) files w2))"
    using assms(3) by (auto simp: Let_def)
  have p: "program env a w =
     (case main env a w of
        (Inl e, w2) \<Rightarrow> (1, w2\<lparr>tracebacks := tracebacks w2 @ [e]\<rparr>)
      | (Inr code, w2) \<Rightarrow> (code, w2))"
    using assms(1,2) by (simp add: program_installed)
  from assms(5) show ?thesis
  proof
    assume a: "path_exists env (path_str env ''.github/workflows'') = Inr False"
    with m have "main env a w = (Inr 0, print (warning_sign @ '' .github/workflows directory not found.'') w2)"
      by simp
    with p c t s a show ?thesis by simp
  next
    assume a: "path_exists env (path_str env ''.github/workflows'') = Inr True
            \<and> find_workflow_files env (path_str env ''.github/workflows'') = Inr []"
    with m have "main env a w = (Inr 0, print (warning_sign @ '' No workflow files found.'') w2)"
      by (simp add: check_all_def)
    with p c t s a show ?thesis by simp
  qed
qed

theorem no_files_exits_0_witness:
  "fst (program no_workflows no_args fresh) = 0
   \<and> calls (snd (program no_workflows no_args fresh)) = []
   \<and> last (stdout (snd (program no_workflows no_args fresh)))
       = warning_sign @ '' .github/workflows directory not found.''
   \<and> fst (program empty_workflows no_args fresh) = 0
   \<and> calls (snd (program empty_workflows no_args fresh)) = []
   \<and> last (stdout (snd (program empty_workflows no_args fresh)))
       = warning_sign @ '' No workflow files found.''"
proof -
  have y1: "which no_workflows ''yamllint''" and a1: "which no_workflows ''actionlint''"
    and y2: "which empty_workflows ''yamllint''" and a2: "which empty_workflows ''actionlint''"
    and f: "arg_file no_args = None"
    and nd: "\<not> arg_debug no_args"
    by code_simp+
  have e1: "path_exists no_workflows (path_str no_workflows ''.github/workflows'') = Inr False"
    and e2: "path_exists empty_workflows (path_str empty_workflows ''.github/workflows'') = Inr True"
    and g2: "find_workflow_files empty_workflows (path_str empty_workflows ''.github/workflows'') = Inr []"
    and c: "calls fresh = []"
    by code_simp+
  from nd have d1: "arg_debug no_args
      \<longrightarrow> json_dumps_error no_workflows
            (PDict (fst (load_config no_workflows (arg_config no_args) fresh))) = None"
    and d2: "arg_debug no_args
      \<longrightarrow> json_dumps_error empty_workflows
            (PDict (fst (load_config empty_workflows (arg_config no_args) fresh))) = None"
    by simp_all
  from e1 have h1: "path_exists no_workflows (path_str no_workflows ''.github/workflows'') = Inr False
         \<or> path_exists no_workflows (path_str no_workflows ''.github/workflows'') = Inr True
            \<and> find_workflow_files no_workflows (path_str no_workflows ''.github/workflows'') = Inr []"
    by simp
  from e2 g2 have h2: "path_exists empty_workflows (path_str empty_workflows ''.github/workflows'') = Inr False
         \<or> path_exists empty_workflows (path_str empty_workflows ''.github/workflows'') = Inr True
            \<and> find_workflow_files empty_workflows (path_str empty_workflows ''.github/workflows'') = Inr []"
    by simp
  from no_files_exits_0 [OF y1 a1 f d1 h1]
  have "fst (program no_workflows no_args fresh) = 0
        \<and> calls (snd (program no_workflows no_args fresh)) = []
        \<and> last (stdout (snd (program no_workflows no_args fresh)))
            = warning_sign @ '' .github/workflows directory not found.''"
    by (auto simp: e1 c)
  moreover from no_files_exits_0 [OF y2 a2 f d2 h2]
  have "fst (program empty_workflows no_args fresh) = 0
        \<and> calls (snd (program empty_workflows no_args fresh)) = []
        \<and> last (stdout (snd (program empty_workflows no_args fresh)))
            = warning_sign @ '' No workflow files found.''"
    by (auto simp: e2 c)
  ultimately show ?thesis by simp
qed




text \<open>
  C8. The flag \<^verbatim>\<open>has_errors\<close> is never reset. Neither half of the loop body, nor the loop
  over any files, turns a set flag into a cleared one; and once the loop, started with
  the flag cleared, has set it after the files \<open>pre\<close>, the run over \<open>pre @ post\<close> ends with
  exit status 1 whatever the files \<open>post\<close> give: either \<^verbatim>\<open>main\<close> returns 1 or an exception
  escapes it.
\<close>

theorem flag_never_reset:
  "fst (check_yamllint env a config file (True, w)) \<noteq> Inr False
   \<and> fst (check_actionlint env a config file (True, w)) \<noteq> Inr False
   \<and> fst (check_files env a config files (True, w)) \<noteq> Inr False
   \<and> (fst (check_files env a config pre (False, w)) = Inr True
        \<longrightarrow> exit_status (fst (check_all env a config (pre @ post) w)) = 1)"
proof (intro conjI impI)
  show "fst (check_yamllint env a config file (True, w)) \<noteq> Inr False"
    by (rule check_yamllint_flag)
  show "fst (check_actionlint env a config file (True, w)) \<noteq> Inr False"
    by (rule check_actionlint_keeps)
  show "fst (check_files env a config files (True, w)) \<noteq> Inr False"
    using check_files_flag [of env a config files w False]
    by (cases "check_files env a config files (True, w)") auto
next
  assume "fst (check_files env a config pre (False, w)) = Inr True"
  then obtain w1 where p: "check_files env a config pre (False, w) = (Inr True, w1)"
    by (cases "check_files env a config pre (False, w)") auto
  then have ne: "pre @ post \<noteq> []" by (cases pre) auto
  obtain r w2 where q: "check_files env a config post (True, w1) = (r, w2)"
    by (cases "check_files env a config post (True, w1)") auto
  have all: "check_files env a config (pre @ post) (False, w) = (r, w2)"
    using p q by (simp add: check_files_append)
  show "exit_status (fst (check_all env a config (pre @ post) w)) = 1"
  proof (cases r)
    case (Inl e)
    with all ne show ?thesis by (simp add: check_all_def exit_status_def)
  next
    case (Inr h)
    with q have h using check_files_flag by blast
    with Inr all ne show ?thesis by (simp add: check_all_def exit_status_def)
  qed
qed

theorem flag_never_reset_witness:
  "fst (check_files two_files no_args DEFAULT_CONFIG [''a.yml''] (False, fresh)) = Inr True
   \<and> exit_status (fst (check_all two_files no_args DEFAULT_CONFIG ([''a.yml''] @ [''b.yml'']) fresh)) = 1"
proof -
  have p: "fst (check_files two_files no_args DEFAULT_CONFIG [''a.yml''] (False, fresh)) = Inr True"
    by code_simp
  from flag_never_reset [where env = two_files and a = no_args and config = DEFAULT_CONFIG
      and w = fresh and pre = "[''a.yml'']" and post = "[''b.yml'']"] p
  show ?thesis by blast
qed



text \<open>
  C10. In JSON mode, when \<^verbatim>\<open>json.loads\<close> reads the text \<^verbatim>\<open>lint_action\<close> returned as the empty
  object, \<^verbatim>\<open>null\<close>, 0, \<^verbatim>\<open>false\<close> or the empty string, the actionlint half of the loop body
  returns the flag as it got it: no error is recorded, although the text is not empty.
\<close>

theorem falsy_json_is_success:
  assumes "arg_json a"
    and "fst (lint_action env file config (arg_verbose a \<or> arg_debug a) (arg_json a)
                (print (''  '' @ bullet @ '' actionlint:'') w)) = Inr out"
    and "json_loads env out = Inr v"
    and "v \<in> {PDict [], PNone, PInt 0, PBool False, PStr []}"
  shows "fst (check_actionlint env a config file (has_errors, w)) = Inr has_errors"
  using check_actionlint_json [OF assms(1,2), of has_errors] assms(3,4) by auto

theorem falsy_json_is_success_witness:
  "''{}'' \<noteq> [] \<and> fst (check_actionlint (actionlint_says 0 ''{}'') json_args DEFAULT_CONFIG ci_yml (False, fresh)) = Inr False"
proof -
  have j: "arg_json json_args" by code_simp
  have a1: "fst (lint_action (actionlint_says 0 ''{}'') ci_yml DEFAULT_CONFIG
                  (arg_verbose json_args \<or> arg_debug json_args) (arg_json json_args)
                  (print (''  '' @ bullet @ '' actionlint:'') fresh)) = Inr ''{}''"
    and l1: "json_loads (actionlint_says 0 ''{}'') ''{}'' = Inr (PDict [])"
    by code_simp+
  have v: "PDict [] \<in> {PDict [], PNone, PInt 0, PBool False, PStr []}" by simp
  from falsy_json_is_success [OF j a1 l1 v, of False] show ?thesis by simp
qed

end
